theory Spec2Isabelle
  imports Complex_Main "HOL-Library.AList"
begin

section \<open>Data model\<close>

text \<open>
  The enums of \<^verbatim>\<open>src/models/enums.js\<close>. JavaScript numbers are modelled as exact
  reals (no rounding error, no NaN, no Infinity); a nullable number is a \<open>real option\<close>;
  a timestamp is the number of milliseconds since the epoch.
\<close>

datatype session = LONDON | NY | ASIA

datatype psy_state = STABLE | OVEREXTENDED | HESITANT | AGGRESSIVE

datatype risk_level = LOW | MEDIUM | HIGH

datatype insight_type = POSITIVE | CONSTRUCTIVE

record trade =
  tradeId :: nat
  entryTime :: int
  exitTime :: int
  profitLoss :: real
  riskPercentUsed :: "real option"
  riskRewardAchieved :: "real option"
  targetPercentAchieved :: "real option"
  tsession :: session
  stopLossHit :: bool
  exitedEarly :: bool
  tnotes :: "string option"

record plan =
  maxTradesPerDay :: nat
  riskPercentPerTrade :: real
  targetRiskRewardRatio :: real
  preferredSessions :: "session list"

section \<open>JavaScript primitives\<close>

text \<open>\<^verbatim>\<open>Math.round\<close>: the nearest integer, halves rounded towards plus infinity.\<close>

definition js_round :: "real \<Rightarrow> int" where
  "js_round x = \<lfloor>x + 1 / 2\<rfloor>"

text \<open>Truthiness of a nullable number: \<^verbatim>\<open>null\<close> and \<^verbatim>\<open>0\<close> are falsy.\<close>

definition truthy :: "real option \<Rightarrow> bool" where
  "truthy v = (case v of None \<Rightarrow> False | Some x \<Rightarrow> x \<noteq> 0)"

text \<open>\<^verbatim>\<open>x || d\<close> on a number that is never null: \<open>d\<close> replaces a zero.\<close>

definition or_default :: "real \<Rightarrow> real \<Rightarrow> real" where
  "or_default x d = (if x = 0 then d else x)"

text \<open>The values of the non-null entries of a nullable field, in list order.\<close>

definition present :: "('a \<Rightarrow> real option) \<Rightarrow> 'a list \<Rightarrow> real list" where
  "present f ts = map (\<lambda>t. the (f t)) (filter (\<lambda>t. f t \<noteq> None) ts)"

text \<open>\<^verbatim>\<open>xs.reduce((s, v) => s + v, 0) / xs.length\<close>, guarded by \<^verbatim>\<open>xs.length > 0\<close>.\<close>

definition mean_or :: "real \<Rightarrow> real list \<Rightarrow> real" where
  "mean_or d xs = (if length xs > 0 then sum_list xs / real (length xs) else d)"

text \<open>\<^verbatim>\<open>new Date(t).toISOString().split('T')[0]\<close>: the UTC calendar day, as a day number.\<close>

definition dayKey :: "trade \<Rightarrow> int" where
  "dayKey t = entryTime t div 86400000"

text \<open>The stable sort \<^verbatim>\<open>sort((a, b) => new Date(a.entryTime) - new Date(b.entryTime))\<close>.\<close>

definition sortByEntry :: "trade list \<Rightarrow> trade list" where
  "sortByEntry ts = sort_key entryTime ts"

section \<open>Metrics primitives (analysis/metrics.js, utils/computeMedian.js)\<close>

definition computeMedian :: "real list \<Rightarrow> real" where
  "computeMedian sortedNumbers =
     (if length sortedNumbers = 0 then 0
      else let midIdx = length sortedNumbers div 2 in
        if length sortedNumbers mod 2 = 1 then sortedNumbers ! midIdx
        else (sortedNumbers ! (midIdx - 1) + sortedNumbers ! midIdx) / 2)"

record basic_metrics =
  winRate :: real
  avgRiskUsed :: real
  avgRR :: real
  medianTargetPct :: real
  nearTargetHits :: nat
  earlyExits :: nat

definition isEarlyExit :: "trade \<Rightarrow> bool" where
  "isEarlyExit t =
     (let pct = targetPercentAchieved t;
          profitableEarly = (profitLoss t > 0 \<and> pct \<noteq> None \<and> the pct \<ge> 30 \<and> the pct \<le> 80)
      in exitedEarly t \<or> profitableEarly)"

definition calculateBasicMetrics :: "trade list \<Rightarrow> basic_metrics" where
  "calculateBasicMetrics trades =
     (let totalTrades = length trades in
      if totalTrades = 0 then
        \<lparr>winRate = 0, avgRiskUsed = 0, avgRR = 0, medianTargetPct = 0,
         nearTargetHits = 0, earlyExits = 0\<rparr>
      else
        let winCount = length (filter (\<lambda>t. profitLoss t > 0) trades);
            tradesWithRisk = filter (\<lambda>t. riskPercentUsed t \<noteq> None) trades;
            tradesWithRR = filter (\<lambda>t. riskRewardAchieved t \<noteq> None) trades;
            targetPercents =
              map the (filter (\<lambda>v. v \<noteq> None) (map targetPercentAchieved trades));
            sortedTargetPercents = sort targetPercents
        in \<lparr>winRate = real winCount / real totalTrades,
            avgRiskUsed = mean_or 0 (map (\<lambda>t. the (riskPercentUsed t)) tradesWithRisk),
            avgRR = mean_or 0 (map (\<lambda>t. the (riskRewardAchieved t)) tradesWithRR),
            medianTargetPct = computeMedian sortedTargetPercents,
            nearTargetHits =
              length (filter (\<lambda>t. targetPercentAchieved t \<noteq> None
                                  \<and> the (targetPercentAchieved t) \<ge> 80) trades),
            earlyExits = length (filter isEarlyExit trades)\<rparr>)"

record day_metrics =
  daysWithTrades :: nat
  exceededDays :: nat
  outsideSessionDays :: nat

text \<open>
  The two objects keyed by day that \<^verbatim>\<open>calculateDayMetrics\<close> fills in its
  \<^verbatim>\<open>forEach\<close>, as association lists in insertion order.
\<close>

definition countDay :: "trade \<Rightarrow> (int \<times> nat) list \<Rightarrow> (int \<times> nat) list" where
  "countDay t tradesByDay =
     AList.update (dayKey t)
       ((case map_of tradesByDay (dayKey t) of None \<Rightarrow> 0 | Some c \<Rightarrow> c) + 1) tradesByDay"

definition markOutside :: "plan \<Rightarrow> trade \<Rightarrow> (int \<times> bool) list \<Rightarrow> (int \<times> bool) list" where
  "markOutside p t outsideSessionByDay =
     (let isOutside = \<not> (tsession t \<in> set (preferredSessions p)) in
      if isOutside then AList.update (dayKey t) True outsideSessionByDay
      else outsideSessionByDay)"

definition calculateDayMetrics :: "trade list \<Rightarrow> plan \<Rightarrow> day_metrics" where
  "calculateDayMetrics trades p =
     (let tradesByDay = fold countDay trades [];
          outsideSessionByDay = fold (markOutside p) trades []
      in \<lparr>daysWithTrades = (if length tradesByDay = 0 then 1 else length tradesByDay),
          exceededDays =
            length (filter (\<lambda>cnt. maxTradesPerDay p \<noteq> 0 \<and> cnt > maxTradesPerDay p)
                       (map snd tradesByDay)),
          outsideSessionDays = length outsideSessionByDay\<rparr>)"

record risk_spike =
  riskSpike :: bool
  last3Breaches :: nat

text \<open>The average of the non-null risks, with a fallback \<open>d\<close> for a list without any.\<close>

definition avgRiskOr :: "real \<Rightarrow> trade list \<Rightarrow> real" where
  "avgRiskOr d trades =
     (let tradesWithRisk = filter (\<lambda>t. riskPercentUsed t \<noteq> None) trades
      in mean_or d (map (\<lambda>t. the (riskPercentUsed t)) tradesWithRisk))"

definition calculateRiskSpike :: "trade list \<Rightarrow> real \<Rightarrow> risk_spike" where
  "calculateRiskSpike trades planRisk =
     (let totalTrades = length trades in
      if totalTrades = 0 then \<lparr>riskSpike = False, last3Breaches = 0\<rparr>
      else
        let recentAvg = avgRiskOr planRisk trades;
            last3 = take 3 trades;
            riskSpikeThreshold = max (planRisk * 1.3) (recentAvg * 1.3);
            breaches = length (filter (\<lambda>t. riskPercentUsed t \<noteq> None
                                  \<and> the (riskPercentUsed t) > riskSpikeThreshold) last3)
        in \<lparr>riskSpike = (breaches \<ge> 2), last3Breaches = breaches\<rparr>)"

definition calculateRiskBreaches :: "trade list \<Rightarrow> real \<Rightarrow> nat" where
  "calculateRiskBreaches trades planRisk =
     length (filter (\<lambda>t. riskPercentUsed t \<noteq> None
                        \<and> the (riskPercentUsed t) > planRisk * 1.5) trades)"

section \<open>Psychological state classifier\<close>

text \<open>
  \<^verbatim>\<open>calculatePlanAdherence\<close>. Its \<^verbatim>\<open>Number.isNaN\<close> guards never fire on numeric
  metrics, so all four components and weights are present and the weight sum is 1.
\<close>

definition calculatePlanAdherence :: "nat \<Rightarrow> nat \<Rightarrow> day_metrics \<Rightarrow> nat \<Rightarrow> int" where
  "calculatePlanAdherence riskBreaches nearHits dm totalTrades =
     (let riskDiscipline = 1 - real riskBreaches / real (max 1 totalTrades);
          sessionAdherence = 1 - real (outsideSessionDays dm) / real (max 1 (daysWithTrades dm));
          tradeCountDiscipline = 1 - real (exceededDays dm) / real (max 1 (daysWithTrades dm));
          targetProgress = min 1 (real nearHits / real (max 1 totalTrades));
          components = [riskDiscipline, sessionAdherence, tradeCountDiscipline, targetProgress];
          weights = [0.4, 0.25, 0.25, 0.1];
          weightSum = or_default (sum_list weights) 1;
          adherenceWeighted = sum_list (map (\<lambda>(v, w). v * w) (zip components weights)) / weightSum
      in js_round (adherenceWeighted * 100))"

record risk_metrics =
  rm_riskSpike :: bool
  rm_last3Breaches :: nat
  rm_riskBreaches :: nat
  rm_avgRiskUsed :: real

text \<open>The three threshold tests of \<^verbatim>\<open>determineState\<close>.\<close>

definition overextended :: "day_metrics \<Rightarrow> bool" where
  "overextended dm =
     (daysWithTrades dm > 0
      \<and> (real (exceededDays dm) / real (daysWithTrades dm) \<ge> 0.33
         \<or> real (outsideSessionDays dm) / real (daysWithTrades dm) \<ge> 0.33))"

definition aggressive :: "risk_metrics \<Rightarrow> real \<Rightarrow> nat \<Rightarrow> bool" where
  "aggressive rm planRisk totalTrades =
     (rm_riskSpike rm
      \<or> real (rm_riskBreaches rm) / real (max 1 totalTrades) \<ge> 0.25
      \<or> rm_avgRiskUsed rm > planRisk * 1.25)"

definition hesitant :: "basic_metrics \<Rightarrow> nat \<Rightarrow> bool" where
  "hesitant m totalTrades =
     (real (earlyExits m) / real (max 1 totalTrades) \<ge> 0.4
      \<or> (medianTargetPct m < 60 \<and> winRate m \<le> 0.6))"

record state_result =
  sr_state :: psy_state
  sr_indicators :: "string list"
  sr_recommendations :: "string list"

text \<open>
  \<^verbatim>\<open>determineState\<close>; an indicator is represented by its message (category, severity
  and value are presentation data).
\<close>

definition determineState ::
  "basic_metrics \<Rightarrow> day_metrics \<Rightarrow> risk_metrics \<Rightarrow> real \<Rightarrow> nat \<Rightarrow> state_result" where
  "determineState m dm rm planRisk totalTrades =
     (if overextended dm then
        \<lparr>sr_state = OVEREXTENDED,
         sr_indicators = [''Trading beyond plan boundaries'']
           @ (if exceededDays dm > 0 then [''Exceeded max trades/day''] else [])
           @ (if outsideSessionDays dm > 0 then [''Outside preferred sessions (days)''] else []),
         sr_recommendations = [''Respect daily trade cap and stick to planned sessions'']\<rparr>
      else if aggressive rm planRisk totalTrades then
        \<lparr>sr_state = AGGRESSIVE,
         sr_indicators =
           (if rm_riskSpike rm then [''Sustained risk elevation (2 of last 3)''] else [])
           @ (if rm_riskBreaches rm > 0 then [''Risk > 1.5x plan detected''] else [])
           @ (if rm_avgRiskUsed rm > planRisk * 1.25
              then [''Average risk above plan by 25%+''] else []),
         sr_recommendations =
           [''Reduce position size to plan level and enforce stop discipline'']\<rparr>
      else if hesitant m totalTrades then
        \<lparr>sr_state = HESITANT,
         sr_indicators =
           (if earlyExits m > 0 then [''Frequent early exits''] else [])
           @ (if medianTargetPct m < 60 then [''Median target % below 60''] else []),
         sr_recommendations =
           [''Define target rules; practice holding winners and scaling out'']\<rparr>
      else
        \<lparr>sr_state = STABLE,
         sr_indicators = [''Trading within plan parameters'']
           @ (if real (nearTargetHits m) / real (max 1 totalTrades) \<ge> 0.6
              then [''Exits near targets''] else []),
         sr_recommendations = [''Maintain discipline; continue tracking adherence'']\<rparr>)"

definition signalStrength :: "basic_metrics \<Rightarrow> real \<Rightarrow> real" where
  "signalStrength m planRisk =
     max (max \<bar>(if planRisk \<noteq> 0 then avgRiskUsed m / planRisk else 1) - 1\<bar>
              (\<bar>winRate m - 0.5\<bar> * 2))
         \<bar>medianTargetPct m / 100 - 0.6\<bar>"

definition calculateConfidence :: "basic_metrics \<Rightarrow> int \<Rightarrow> real \<Rightarrow> nat \<Rightarrow> int" where
  "calculateConfidence m planAdherence planRisk totalTrades =
     (let sampleFactor = real (min totalTrades 10) / 10;
          discipline = real_of_int planAdherence / 100;
          confidence0 =
            js_round (100 * (0.5 * discipline + 0.3 * sampleFactor
                             + 0.2 * signalStrength m planRisk));
          confidence1 = max 10 (min 95 confidence0)
      in if totalTrades < 5 then min confidence1 40 else confidence1)"

record state_analysis =
  sa_state :: psy_state
  sa_confidence :: int
  sa_planAdherence :: int
  sa_analyzedTradeCount :: nat
  sa_indicators :: "string list"
  sa_recommendations :: "string list"

text \<open>The metrics \<^verbatim>\<open>analyzePsychologicalState\<close> derives from its window of at most 10 trades.\<close>

definition analyzedTrades :: "trade list \<Rightarrow> trade list" where
  "analyzedTrades trades = take 10 trades"

definition planRiskOf :: "plan \<Rightarrow> real" where
  "planRiskOf p = or_default (riskPercentPerTrade p) 0"

definition riskMetricsOf :: "trade list \<Rightarrow> plan \<Rightarrow> risk_metrics" where
  "riskMetricsOf trades p =
     (let a = analyzedTrades trades;
          riskSpikeData = calculateRiskSpike a (planRiskOf p)
      in \<lparr>rm_riskSpike = riskSpike riskSpikeData,
          rm_last3Breaches = last3Breaches riskSpikeData,
          rm_riskBreaches = calculateRiskBreaches a (planRiskOf p),
          rm_avgRiskUsed = avgRiskUsed (calculateBasicMetrics a)\<rparr>)"

definition analyzePsychologicalState :: "trade list \<Rightarrow> plan option \<Rightarrow> state_analysis" where
  "analyzePsychologicalState trades plan =
     (case plan of
        None \<Rightarrow>
          \<lparr>sa_state = STABLE, sa_confidence = 50, sa_planAdherence = 50,
           sa_analyzedTradeCount = 0,
           sa_indicators = [''Insufficient data to analyze state''],
           sa_recommendations = [''Record trades and set a trading plan to enable analysis'']\<rparr>
      | Some p \<Rightarrow>
          if length trades = 0 then
            \<lparr>sa_state = STABLE, sa_confidence = 50, sa_planAdherence = 50,
             sa_analyzedTradeCount = 0,
             sa_indicators = [''Insufficient data to analyze state''],
             sa_recommendations = [''Record trades and set a trading plan to enable analysis'']\<rparr>
          else
            let a = analyzedTrades trades;
                totalTrades = length a;
                planRisk = planRiskOf p;
                basicMetrics = calculateBasicMetrics a;
                dayMetrics = calculateDayMetrics a p;
                riskMetrics = riskMetricsOf trades p;
                planAdherence =
                  calculatePlanAdherence (rm_riskBreaches riskMetrics)
                    (nearTargetHits basicMetrics) dayMetrics totalTrades;
                st = determineState basicMetrics dayMetrics riskMetrics planRisk totalTrades;
                confidence = calculateConfidence basicMetrics planAdherence planRisk totalTrades
            in \<lparr>sa_state = sr_state st, sa_confidence = confidence,
                sa_planAdherence = planAdherence, sa_analyzedTradeCount = totalTrades,
                sa_indicators = sr_indicators st,
                sa_recommendations = sr_recommendations st\<rparr>)"

section \<open>Session forecast (analysis/performanceInsights.js, second part)\<close>

record session_forecast =
  sf_session :: session
  sf_predictedBias :: string
  sf_riskLevel :: risk_level
  sf_forecast :: string
  sf_recommendations :: "string list"
  sf_basedOnState :: psy_state

text \<open>
  \<^verbatim>\<open>analyzeSessionForecast\<close>. The requested session is an enum value or absent
  (\<^verbatim>\<open>toUpperCase\<close> is the identity on enum values); \<open>currentState\<close> is the state of
  the current analysis, or absent.
\<close>

definition analyzeSessionForecast ::
  "trade list \<Rightarrow> session option \<Rightarrow> plan option \<Rightarrow> psy_state option \<Rightarrow> session_forecast" where
  "analyzeSessionForecast trades sess plan currentState =
     (let upperSession = (case sess of None \<Rightarrow> LONDON | Some s \<Rightarrow> s);
          basedOn = (case currentState of None \<Rightarrow> STABLE | Some s \<Rightarrow> s);
          fallback =
            \<lparr>sf_session = upperSession, sf_predictedBias = ''NEUTRAL'', sf_riskLevel = MEDIUM,
             sf_forecast = ''NEUTRAL'',
             sf_recommendations = [''Log more trades in this session to improve forecast''],
             sf_basedOnState = basedOn\<rparr>
      in case plan of
        None \<Rightarrow> fallback
      | Some p \<Rightarrow>
          if length trades = 0 then fallback
          else
            let totalTrades = length trades;
                avgRisk = avgRiskOr (or_default (riskPercentPerTrade p) 0) trades;
                outsideSessionTrades =
                  length (filter (\<lambda>t. \<not> (tsession t \<in> set (preferredSessions p))) trades);
                recentLossStreak =
                  (list_all (\<lambda>t. profitLoss t \<le> 0) (take 3 trades) \<and> totalTrades \<ge> 3);
                (bias1, risk1, recs1) =
                  (if recentLossStreak
                   then (''Revenge trading risk'', HIGH,
                         [''Consider pausing before new entries; reset after losses''])
                   else (''NEUTRAL'', MEDIUM, []));
                (bias2, risk2, recs2) =
                  (if avgRisk > or_default (riskPercentPerTrade p) 0 * 1.25
                   then (if bias1 = ''NEUTRAL'' then ''Risk escalation tendency'' else bias1,
                         HIGH, recs1 @ [''Reduce risk per trade to plan level''])
                   else (bias1, risk1, recs1));
                (bias3, risk3, recs3) =
                  (if real outsideSessionTrades / real totalTrades \<ge> 0.2
                   then (if bias2 = ''NEUTRAL'' then ''Session drift'' else bias2,
                         if risk2 \<noteq> HIGH then MEDIUM else risk2,
                         recs2 @ [''Trade only in preferred sessions for this period''])
                   else (bias2, risk2, recs2));
                recs4 =
                  (if bias3 = ''NEUTRAL''
                   then recs3 @ [''Proceed per plan; monitor emotions after first outcome'']
                   else recs3);
                forecast =
                  (if risk3 = HIGH then ''NEGATIVE''
                   else if risk3 = LOW then ''POSITIVE'' else ''NEUTRAL'')
            in \<lparr>sf_session = upperSession, sf_predictedBias = bias3, sf_riskLevel = risk3,
                sf_forecast = forecast, sf_recommendations = recs4,
                sf_basedOnState = basedOn\<rparr>)"

section \<open>Performance insights (analysis/performanceInsights.js, first part)\<close>

record insight =
  in_type :: insight_type
  in_title :: string
  in_description :: string
  in_metricLabel :: string
  in_metricValue :: real

record insight_stats =
  st_winRate :: int
  st_avgRiskReward :: real
  st_planAdherence :: int
  st_tradesThisWeek :: nat

record performance_insights =
  pi_period :: string
  pi_insights :: "insight list"
  pi_stats :: insight_stats
  pi_recommendations :: "string list"

text \<open>The period statistics of \<^verbatim>\<open>analyzePerformanceInsights\<close> on a non-empty trade list.\<close>

definition insightWinRate :: "trade list \<Rightarrow> int" where
  "insightWinRate trades =
     (let totalTrades = length trades;
          wins = length (filter (\<lambda>t. profitLoss t > 0) trades)
      in if totalTrades > 0 then js_round (real wins / real totalTrades * 100) else 0)"

definition insightAvgRR :: "trade list \<Rightarrow> real" where
  "insightAvgRR trades =
     (let tradesWithRR = filter (\<lambda>t. riskRewardAchieved t \<noteq> None) trades in
      if length tradesWithRR > 0
      then real_of_int
             (js_round (sum_list (map (\<lambda>t. the (riskRewardAchieved t)) tradesWithRR)
                          / real (length tradesWithRR) * 100)) / 100
      else 0)"

definition insightPlanAdherence :: "trade list \<Rightarrow> plan \<Rightarrow> int" where
  "insightPlanAdherence trades p =
     (let totalTrades = length trades;
          riskBreachesRatio =
            real (length (filter (\<lambda>t. riskPercentUsed t \<noteq> None
                    \<and> the (riskPercentUsed t) > or_default (riskPercentPerTrade p) 0 * 1.5) trades))
              / real totalTrades;
          outsideSessionRatio =
            real (length (filter (\<lambda>t. \<not> (tsession t \<in> set (preferredSessions p))) trades))
              / real totalTrades
      in js_round ((1 - riskBreachesRatio + (1 - outsideSessionRatio)) / 2 * 100))"

definition insightEarlyExits :: "trade list \<Rightarrow> nat" where
  "insightEarlyExits trades =
     length (filter (\<lambda>t. exitedEarly t
                \<or> (targetPercentAchieved t \<noteq> None \<and> the (targetPercentAchieved t) < 50)) trades)"

text \<open>
  The four blocks of \<^verbatim>\<open>analyzePerformanceInsights\<close> that push insights: positive
  reinforcement, constructive feedback, and the two pushes that ensure one insight of each
  type. A metric value printed with a percent sign is represented by its number.
\<close>

definition positiveReinforcement :: "int \<Rightarrow> int \<Rightarrow> insight list" where
  "positiveReinforcement adherence winPct =
     (if adherence \<ge> 70 then
        [\<lparr>in_type = POSITIVE, in_title = ''Strong plan adherence'',
          in_description = ''You are trading within your rules. Keep it up.'',
          in_metricLabel = ''Plan adherence'', in_metricValue = real_of_int adherence\<rparr>]
      else if winPct \<ge> 60 then
        [\<lparr>in_type = POSITIVE, in_title = ''Solid win rate'',
          in_description = ''Your recent outcomes are favorable without overtrading.'',
          in_metricLabel = ''Win rate'', in_metricValue = real_of_int winPct\<rparr>]
      else [])"

definition constructiveFeedback :: "nat \<Rightarrow> nat \<Rightarrow> int \<Rightarrow> insight list" where
  "constructiveFeedback early totalTrades adherence =
     (if real early / real totalTrades \<ge> 0.3 then
        [\<lparr>in_type = CONSTRUCTIVE, in_title = ''Exiting too early'',
          in_description = ''Consider scaling out or letting winners reach planned targets.'',
          in_metricLabel = ''Early exits'',
          in_metricValue = real_of_int (js_round (real early / real totalTrades * 100))\<rparr>]
      else if adherence < 60 then
        [\<lparr>in_type = CONSTRUCTIVE, in_title = ''Improve plan adherence'',
          in_description =
            ''Stick to sessions and daily trade limits before optimizing entries.'',
          in_metricLabel = ''Plan adherence'', in_metricValue = real_of_int adherence\<rparr>]
      else [])"

definition ensurePositive :: "insight list \<Rightarrow> nat \<Rightarrow> insight list" where
  "ensurePositive insights totalTrades =
     (if \<not> list_ex (\<lambda>i. in_type i = POSITIVE) insights then
        insights @
        [\<lparr>in_type = POSITIVE, in_title = ''Consistent practice'',
          in_description = ''Consistency builds edge. Keep logging trades and reviewing.'',
          in_metricLabel = ''Trades analyzed'', in_metricValue = real totalTrades\<rparr>]
      else insights)"

definition ensureConstructive :: "insight list \<Rightarrow> real \<Rightarrow> insight list" where
  "ensureConstructive insights rr =
     (if \<not> list_ex (\<lambda>i. in_type i = CONSTRUCTIVE) insights then
        insights @
        [\<lparr>in_type = CONSTRUCTIVE, in_title = ''Refine exits'',
          in_description = ''Define rules for taking profits to reduce second-guessing.'',
          in_metricLabel = ''Avg R:R'', in_metricValue = rr\<rparr>]
      else insights)"

text \<open>\<^verbatim>\<open>analyzePerformanceInsights\<close>; \<open>now\<close> is the clock reading of \<^verbatim>\<open>new Date()\<close>.\<close>

definition analyzePerformanceInsights ::
  "trade list \<Rightarrow> plan option \<Rightarrow> string \<Rightarrow> int \<Rightarrow> performance_insights" where
  "analyzePerformanceInsights trades plan period now =
     (let fallback =
            \<lparr>pi_period = period,
             pi_insights =
               [\<lparr>in_type = CONSTRUCTIVE, in_title = ''Add data to unlock insights'',
                 in_description = ''Record trades and set a plan to generate meaningful feedback'',
                 in_metricLabel = ''Trades analyzed'', in_metricValue = 0\<rparr>],
             pi_stats = \<lparr>st_winRate = 0, st_avgRiskReward = 0, st_planAdherence = 0,
                         st_tradesThisWeek = 0\<rparr>,
             pi_recommendations = [''Start with a small set of trades (5-10) to calibrate'']\<rparr>
      in case plan of
        None \<Rightarrow> fallback
      | Some p \<Rightarrow>
          if length trades = 0 then fallback
          else
            let totalTrades = length trades;
                winRate = insightWinRate trades;
                avgRR = insightAvgRR trades;
                planAdherence = insightPlanAdherence trades p;
                startOfWeek = now - 7 * 86400000;
                tradesThisWeek = length (filter (\<lambda>t. entryTime t \<ge> startOfWeek) trades);
                earlyExits = insightEarlyExits trades;
                insights =
                  ensureConstructive
                    (ensurePositive
                       (positiveReinforcement planAdherence winRate
                        @ constructiveFeedback earlyExits totalTrades planAdherence)
                       totalTrades)
                    avgRR
            in \<lparr>pi_period = period, pi_insights = insights,
                pi_stats = \<lparr>st_winRate = winRate, st_avgRiskReward = avgRR,
                            st_planAdherence = planAdherence,
                            st_tradesThisWeek = tradesThisWeek\<rparr>,
                pi_recommendations =
                  map in_description (filter (\<lambda>i. in_type i = CONSTRUCTIVE) insights)\<rparr>)"

section \<open>Temporal state history (analysis/stateHistory.js, utils/stateTrigger.js)\<close>

definition getStateTrigger :: "trade \<Rightarrow> string" where
  "getStateTrigger t =
     (if profitLoss t > 0 then ''Profitable trade''
      else if profitLoss t < 0 then ''Losing trade''
      else if exitedEarly t then ''Early exit''
      else if stopLossHit t then ''Stop loss hit''
      else ''Trade execution'')"

record history_point =
  hp_timestamp :: int
  hp_state :: psy_state
  hp_confidence :: int
  hp_trigger :: string
  hp_tradeId :: nat
  hp_profitLoss :: real
  hp_riskPercentUsed :: "real option"

record history_summary =
  hs_totalChanges :: nat
  hs_mostCommonState :: psy_state
  hs_averageConfidence :: int
  hs_volatility :: real

record state_history =
  sh_history :: "history_point list"
  sh_summary :: history_summary

text \<open>\<^verbatim>\<open>sortedTrades.slice(Math.max(0, i - 4), i + 1)\<close>.\<close>

definition recentWindow :: "trade list \<Rightarrow> nat \<Rightarrow> trade list" where
  "recentWindow sortedTrades i = drop (i - 4) (take (i + 1) sortedTrades)"

text \<open>
  The \<^verbatim>\<open>for\<close> loop of \<^verbatim>\<open>analyzeStateHistory\<close> over the indices still to visit. The
  arrays \<^verbatim>\<open>states\<close> and \<^verbatim>\<open>confidences\<close> and the counter \<^verbatim>\<open>stateChangeCount\<close> grow
  together with \<^verbatim>\<open>history\<close> and are read off it afterwards. The history never shrinks,
  so once \<^verbatim>\<open>history.length < limit\<close> fails the loop is over.
\<close>

fun historyLoop ::
  "trade list \<Rightarrow> plan \<Rightarrow> nat \<Rightarrow> nat list \<Rightarrow> history_point list \<Rightarrow> state_analysis option
     \<Rightarrow> history_point list" where
  "historyLoop sortedTrades p limit [] history lastState = history"
| "historyLoop sortedTrades p limit (i # rest) history lastState =
     (if length history < limit then
        let trade = sortedTrades ! i;
            st = analyzePsychologicalState (recentWindow sortedTrades i) (Some p)
        in if (case lastState of
                 None \<Rightarrow> True
               | Some l \<Rightarrow> sa_state l \<noteq> sa_state st
                           \<or> \<bar>sa_confidence l - sa_confidence st\<bar> > 15)
           then historyLoop sortedTrades p limit rest
                  (history @
                   [\<lparr>hp_timestamp = entryTime trade, hp_state = sa_state st,
                     hp_confidence = sa_confidence st, hp_trigger = getStateTrigger trade,
                     hp_tradeId = tradeId trade, hp_profitLoss = profitLoss trade,
                     hp_riskPercentUsed = riskPercentUsed trade\<rparr>])
                  (Some st)
           else historyLoop sortedTrades p limit rest history lastState
      else history)"

text \<open>
  \<^verbatim>\<open>stateCounts\<close> with its keys in first-seen order, and the \<^verbatim>\<open>reduce\<close> that keeps the
  running key only while its count is strictly greater.
\<close>

definition countState :: "psy_state \<Rightarrow> (psy_state \<times> nat) list \<Rightarrow> (psy_state \<times> nat) list" where
  "countState st stateCounts =
     AList.update st ((case map_of stateCounts st of None \<Rightarrow> 0 | Some c \<Rightarrow> c) + 1) stateCounts"

definition mostCommon :: "psy_state list \<Rightarrow> psy_state" where
  "mostCommon states =
     (let stateCounts = fold countState states [] in
      case map fst stateCounts of
        [] \<Rightarrow> STABLE
      | k # ks \<Rightarrow>
          foldl (\<lambda>a b. if the (map_of stateCounts a) > the (map_of stateCounts b) then a else b)
            k ks)"

definition averageConfidenceOf :: "int list \<Rightarrow> int" where
  "averageConfidenceOf confidences =
     (if length confidences > 0
      then js_round (real_of_int (sum_list confidences) / real (length confidences))
      else 50)"

definition volatilityOf :: "int list \<Rightarrow> real" where
  "volatilityOf confidences =
     (let averageConfidence = averageConfidenceOf confidences;
          variance =
            (if length confidences > 0
             then sum_list (map (\<lambda>conf. (real_of_int (conf - averageConfidence))\<^sup>2) confidences)
                    / real (length confidences)
             else 0)
      in real_of_int (js_round (sqrt variance / 100 * 100)) / 100)"

text \<open>
  \<^verbatim>\<open>analyzeStateHistory\<close>. \<^verbatim>\<open>trades.sort(...)\<close> sorts the caller's array in place, so
  the function is modelled as returning the contents of that array after the call together
  with its result.
\<close>

definition analyzeStateHistory ::
  "trade list \<Rightarrow> plan option \<Rightarrow> nat \<Rightarrow> trade list \<times> state_history" where
  "analyzeStateHistory trades plan limit =
     (let fallback =
            \<lparr>sh_history = [],
             sh_summary = \<lparr>hs_totalChanges = 0, hs_mostCommonState = STABLE,
                           hs_averageConfidence = 50, hs_volatility = 0\<rparr>\<rparr>
      in case plan of
        None \<Rightarrow> (trades, fallback)
      | Some p \<Rightarrow>
          if length trades = 0 then (trades, fallback)
          else
            let sortedTrades = sortByEntry trades;
                history = historyLoop sortedTrades p limit [0 ..< length sortedTrades] [] None;
                states = map hp_state history;
                confidences = map hp_confidence history
            in (sortedTrades,
                \<lparr>sh_history = take limit history,
                 sh_summary = \<lparr>hs_totalChanges = length history,
                               hs_mostCommonState = mostCommon states,
                               hs_averageConfidence = averageConfidenceOf confidences,
                               hs_volatility = volatilityOf confidences\<rparr>\<rparr>))"

text \<open>
  The summary's volatility as the specification words it: the population standard
  deviation of the confidences, divided by 100 and rounded to two decimals.
\<close>

definition spec_stddev :: "int list \<Rightarrow> real" where
  "spec_stddev xs =
     (let mean = real_of_int (sum_list xs) / real (length xs)
      in sqrt (sum_list (map (\<lambda>x. (real_of_int x - mean)\<^sup>2) xs) / real (length xs)))"

definition spec_volatility :: "int list \<Rightarrow> real" where
  "spec_volatility confidences =
     real_of_int (js_round (spec_stddev confidences / 100 * 100)) / 100"

section \<open>Breathwork trigger (zentra/consistencyTrend.js, second part)\<close>

text \<open>
  An entry less than 30 minutes, and not before, the previous trade's exit. The pairs of
  neighbours \<^verbatim>\<open>(sortedTrades[i - 1], sortedTrades[i])\<close> visited by the iterations from \<open>i = 1\<close> on.
\<close>

definition diffMinutes :: "trade \<Rightarrow> trade \<Rightarrow> real" where
  "diffMinutes prev cur = real_of_int (entryTime cur - exitTime prev) / (1000 * 60)"

definition neighbours :: "'a list \<Rightarrow> ('a \<times> 'a) list" where
  "neighbours xs = zip xs (tl xs)"

definition impulsivePairs :: "trade list \<Rightarrow> nat" where
  "impulsivePairs sortedTrades =
     length (filter (\<lambda>(prev, cur). diffMinutes prev cur < 30 \<and> diffMinutes prev cur \<ge> 0)
               (neighbours sortedTrades))"

definition countImpulsiveTradesLastHour :: "int \<Rightarrow> trade list \<Rightarrow> nat" where
  "countImpulsiveTradesLastHour now trades =
     (if length trades < 2 then 0
      else
        let oneHourAgo = now - 60 * 60 * 1000;
            sortedTrades = sortByEntry (filter (\<lambda>t. entryTime t \<ge> oneHourAgo) trades)
        in if length sortedTrades < 2 then 0 else impulsivePairs sortedTrades)"

definition calculateBatteryDrop :: "real \<Rightarrow> real \<Rightarrow> real" where
  "calculateBatteryDrop startBattery currentBattery = max 0 (startBattery - currentBattery)"

record trigger =
  tr_type :: string
  tr_value :: real
  tr_threshold :: real

record urgency =
  ur_level :: string
  ur_score :: real
  ur_factors :: "string list"

definition calculateUrgency :: "trigger list \<Rightarrow> real \<Rightarrow> real \<Rightarrow> urgency" where
  "calculateUrgency triggers mentalBattery emotionalVolatility =
     (if length triggers = 0 then \<lparr>ur_level = ''none'', ur_score = 0, ur_factors = []\<rparr>
      else
        let s1 = real (length triggers) * 20;
            s2 = (if mentalBattery < 30 then s1 + 30
                  else if mentalBattery < 40 then s1 + 15 else s1);
            s3 = (if emotionalVolatility > 80 then s2 + 25
                  else if emotionalVolatility > 70 then s2 + 10 else s2);
            hasMultipleSevere =
              (length (filter (\<lambda>t. tr_type t \<in> set [''low_battery'', ''high_volatility'',
                                                       ''battery_drop'']) triggers) \<ge> 2);
            urgencyScore = (if hasMultipleSevere then s3 + 20 else s3);
            level = (if urgencyScore \<ge> 70 then ''high''
                     else if urgencyScore \<ge> 40 then ''medium'' else ''low'')
        in \<lparr>ur_level = level, ur_score = min 100 urgencyScore,
            ur_factors = map tr_type triggers\<rparr>)"

definition getUrgencyMessage :: "string \<Rightarrow> string" where
  "getUrgencyMessage level =
     (if level = ''high'' then
        ''Immediate breathwork strongly recommended - multiple stress indicators detected''
      else if level = ''medium'' then
        ''Breathwork recommended now to help reset your mental state''
      else ''A breathing exercise may help maintain focus'')"

definition getRecommendedBreathwork :: "trigger list \<Rightarrow> string" where
  "getRecommendedBreathwork triggers =
     (let hasVolatility = list_ex (\<lambda>t. tr_type t = ''high_volatility'') triggers;
          hasLowBattery = list_ex (\<lambda>t. tr_type t = ''low_battery'') triggers;
          hasImpulsive = list_ex (\<lambda>t. tr_type t = ''impulsive_trades'') triggers
      in if hasVolatility \<or> hasImpulsive then ''Box Breathing''
         else if hasLowBattery then ''Energizing Breath'' else ''Calming Breath'')"

record breathwork =
  bw_shouldSuggest :: bool
  bw_urgency :: urgency
  bw_triggers :: "trigger list"
  bw_message :: string
  bw_breathworkType :: "string option"

text \<open>
  \<^verbatim>\<open>shouldSuggestBreathwork\<close>; an absent \<^verbatim>\<open>sessionStartBattery\<close> takes the default 100,
  \<open>now\<close> is the clock reading of \<^verbatim>\<open>Date.now()\<close>. The flag \<^verbatim>\<open>shouldSuggest\<close> is set
  exactly where a trigger is pushed.
\<close>

definition shouldSuggestBreathwork ::
  "real \<Rightarrow> real \<Rightarrow> trade list \<Rightarrow> real option \<Rightarrow> int \<Rightarrow> breathwork" where
  "shouldSuggestBreathwork mentalBattery emotionalVolatility todayTrades sessionStartBattery now =
     (let startBattery = (case sessionStartBattery of None \<Rightarrow> 100 | Some s \<Rightarrow> s);
          t1 = (if emotionalVolatility > 70
                then [\<lparr>tr_type = ''high_volatility'', tr_value = emotionalVolatility,
                       tr_threshold = 70\<rparr>] else []);
          t2 = (if mentalBattery < 40
                then t1 @ [\<lparr>tr_type = ''low_battery'', tr_value = mentalBattery,
                            tr_threshold = 40\<rparr>] else t1);
          impulsiveCount = countImpulsiveTradesLastHour now todayTrades;
          t3 = (if impulsiveCount \<ge> 3
                then t2 @ [\<lparr>tr_type = ''impulsive_trades'', tr_value = real impulsiveCount,
                            tr_threshold = 3\<rparr>] else t2);
          batteryDrop = calculateBatteryDrop startBattery mentalBattery;
          triggers = (if batteryDrop > 30
                then t3 @ [\<lparr>tr_type = ''battery_drop'', tr_value = batteryDrop,
                            tr_threshold = 30\<rparr>] else t3);
          shouldSuggest = (triggers \<noteq> []);
          urg = calculateUrgency triggers mentalBattery emotionalVolatility
      in \<lparr>bw_shouldSuggest = shouldSuggest, bw_urgency = urg, bw_triggers = triggers,
          bw_message = (if shouldSuggest then getUrgencyMessage (ur_level urg)
                        else ''Mental state is within acceptable range''),
          bw_breathworkType =
            (if shouldSuggest then Some (getRecommendedBreathwork triggers) else None)\<rparr>)"

section \<open>Plan control (zentra/planControl.js, first part)\<close>

text \<open>
  \<^verbatim>\<open>ToNumber\<close> of a nullable number in a relational comparison: \<^verbatim>\<open>null\<close> converts to 0.
\<close>

definition js_num :: "real option \<Rightarrow> real" where
  "js_num v = (case v of None \<Rightarrow> 0 | Some x \<Rightarrow> x)"

text \<open>The plan fields read through \<^verbatim>\<open>plan?.field || default\<close>.\<close>

definition planRiskOr1 :: "plan option \<Rightarrow> real" where
  "planRiskOr1 plan = (case plan of None \<Rightarrow> 1 | Some p \<Rightarrow> or_default (riskPercentPerTrade p) 1)"

definition targetRROr1 :: "plan option \<Rightarrow> real" where
  "targetRROr1 plan =
     (case plan of None \<Rightarrow> 1 | Some p \<Rightarrow> or_default (targetRiskRewardRatio p) 1)"

definition preferredOrEmpty :: "plan option \<Rightarrow> session list" where
  "preferredOrEmpty plan = (case plan of None \<Rightarrow> [] | Some p \<Rightarrow> preferredSessions p)"

definition isInAllowedSession :: "trade \<Rightarrow> session list \<Rightarrow> bool" where
  "isInAllowedSession t preferred =
     (if length preferred = 0 then True else tsession t \<in> set preferred)"

definition hasProperSlTp :: "trade \<Rightarrow> real \<Rightarrow> bool" where
  "hasProperSlTp t targetRR =
     (if stopLossHit t = False \<and> js_num (targetPercentAchieved t) \<ge> 80 then True
      else if truthy (riskRewardAchieved t) \<and> the (riskRewardAchieved t) \<ge> targetRR then True
      else False)"

definition hasCorrectPositionSize :: "trade \<Rightarrow> real \<Rightarrow> bool" where
  "hasCorrectPositionSize t planRisk =
     (if \<not> truthy (riskPercentUsed t) \<or> planRisk = 0 then False
      else let minRisk = planRisk * 0.9; maxRisk = planRisk * 1.1
           in the (riskPercentUsed t) \<ge> minRisk \<and> the (riskPercentUsed t) \<le> maxRisk)"

text \<open>
  \<^verbatim>\<open>trade.notes && trade.notes.trim().length > 0\<close>: some character of the notes is not
  white space (the ASCII white space characters are modelled).
\<close>

definition js_whitespace :: "char \<Rightarrow> bool" where
  "js_whitespace c = (c \<in> set [CHR '' '', CHR 0x09, CHR 0x0A, CHR 0x0B, CHR 0x0C, CHR 0x0D])"

definition hasNotes :: "trade \<Rightarrow> bool" where
  "hasNotes t =
     (case tnotes t of None \<Rightarrow> False | Some s \<Rightarrow> list_ex (\<lambda>c. \<not> js_whitespace c) s)"

definition hasTimingDiscipline :: "trade \<Rightarrow> trade option \<Rightarrow> bool" where
  "hasTimingDiscipline t previousTrade =
     (case previousTrade of None \<Rightarrow> True | Some prev \<Rightarrow> diffMinutes prev t \<ge> 30)"

record trade_score =
  ts_score :: nat
  ts_breakdown :: "(string \<times> nat \<times> bool) list"

definition criterion :: "string \<Rightarrow> nat \<Rightarrow> bool \<Rightarrow> nat \<times> (string \<times> nat \<times> bool)" where
  "criterion name points passed =
     (if passed then (points, (name, points, True)) else (0, (name, 0, False)))"

definition calculateTradeScore :: "trade \<Rightarrow> plan option \<Rightarrow> trade option \<Rightarrow> trade_score" where
  "calculateTradeScore t plan previousTrade =
     (let planRisk = planRiskOr1 plan;
          targetRR = targetRROr1 plan;
          preferred = preferredOrEmpty plan;
          results =
            [criterion ''allowedSession'' 20 (isInAllowedSession t preferred),
             criterion ''properSlTp'' 30 (hasProperSlTp t targetRR),
             criterion ''correctPositionSize'' 25 (hasCorrectPositionSize t planRisk),
             criterion ''notes'' 10 (hasNotes t),
             criterion ''timing'' 15 (hasTimingDiscipline t previousTrade)]
      in \<lparr>ts_score = sum_list (map fst results), ts_breakdown = map snd results\<rparr>)"

text \<open>
  Each trade of an entry-time sorted list paired with its predecessor, absent for the
  first: \<^verbatim>\<open>index > 0 ? sortedTrades[index - 1] : null\<close>.
\<close>

definition withPrevious :: "trade list \<Rightarrow> (trade \<times> trade option) list" where
  "withPrevious sortedTrades = zip sortedTrades (None # map Some sortedTrades)"

record plan_control =
  pc_percentage :: int
  pc_tradesAnalyzed :: nat
  pc_tradeScores :: "(nat \<times> trade_score) list"

text \<open>
  \<^verbatim>\<open>calculatePlanControl\<close>; the message, a fixed text chosen by the band of the
  percentage, is left out.
\<close>

definition calculatePlanControl :: "trade list \<Rightarrow> plan option \<Rightarrow> plan_control" where
  "calculatePlanControl trades plan =
     (if length trades = 0 then
        \<lparr>pc_percentage = 0, pc_tradesAnalyzed = 0, pc_tradeScores = []\<rparr>
      else
        let recentTrades = take 5 trades;
            sortedTrades = sortByEntry recentTrades;
            tradeScores =
              map (\<lambda>(t, prev). (tradeId t, calculateTradeScore t plan prev))
                (withPrevious sortedTrades);
            totalScore = sum_list (map (\<lambda>(i, s). ts_score s) tradeScores)
        in \<lparr>pc_percentage = js_round (real totalScore / real (length sortedTrades)),
            pc_tradesAnalyzed = length sortedTrades, pc_tradeScores = tradeScores\<rparr>)"

section \<open>Mental battery (zentra/planControl.js, second part)\<close>

definition isImpulsiveReentry :: "trade \<Rightarrow> trade option \<Rightarrow> bool" where
  "isImpulsiveReentry t previousTrade =
     (case previousTrade of
        None \<Rightarrow> False
      | Some prev \<Rightarrow> diffMinutes prev t < 30 \<and> diffMinutes prev t \<ge> 0)"

definition isOversizedTrade :: "trade \<Rightarrow> real \<Rightarrow> bool" where
  "isOversizedTrade t planRisk =
     (if \<not> truthy (riskPercentUsed t) \<or> planRisk = 0 then False
      else the (riskPercentUsed t) > planRisk * 1.3)"

definition isLargeLoss :: "trade \<Rightarrow> real \<Rightarrow> bool" where
  "isLargeLoss t planRisk = (if planRisk = 0 then False else profitLoss t < - 2 * planRisk)"

text \<open>
  The outer loop of \<^verbatim>\<open>detectClusters\<close> over the sorted trades from index \<open>i\<close> on: it
  runs while at least two trades follow, counts the following trades entered within two
  hours of the first up to the first one that is not, and stops at the second cluster.
\<close>

fun clusterLoop :: "trade list \<Rightarrow> nat \<Rightarrow> nat" where
  "clusterLoop [] clusters = clusters"
| "clusterLoop (t # rest) clusters =
     (if length rest < 2 then clusters
      else
        let twoHoursMs = 2 * 60 * 60 * 1000;
            tradesInWindow =
              1 + length (takeWhile (\<lambda>u. entryTime u - entryTime t \<le> twoHoursMs) rest)
        in if tradesInWindow \<ge> 3
           then (if clusters + 1 \<ge> 2 then clusters + 1 else clusterLoop rest (clusters + 1))
           else clusterLoop rest clusters)"

definition detectClusters :: "trade list \<Rightarrow> nat" where
  "detectClusters trades =
     (if length trades < 3 then 0 else clusterLoop (sortByEntry trades) 0)"

text \<open>The loop of \<^verbatim>\<open>detectDisciplinedPauses\<close> over the neighbours, stopping at three pauses.\<close>

fun pauseLoop :: "(trade \<times> trade) list \<Rightarrow> nat \<Rightarrow> nat" where
  "pauseLoop [] pauses = pauses"
| "pauseLoop ((prev, cur) # rest) pauses =
     (if entryTime cur - exitTime prev \<ge> 2 * 60 * 60 * 1000
      then (if pauses + 1 \<ge> 3 then pauses + 1 else pauseLoop rest (pauses + 1))
      else pauseLoop rest pauses)"

definition detectDisciplinedPauses :: "trade list \<Rightarrow> nat" where
  "detectDisciplinedPauses trades =
     (if length trades < 2 then 0 else pauseLoop (neighbours (sortByEntry trades)) 0)"

definition hasStableRiskUsage :: "trade list \<Rightarrow> real \<Rightarrow> bool" where
  "hasStableRiskUsage trades planRisk =
     (if length trades = 0 \<or> planRisk = 0 then False
      else
        let minRisk = planRisk * 0.9; maxRisk = planRisk * 1.1
        in list_all (\<lambda>t. if \<not> truthy (riskPercentUsed t) then False
                          else the (riskPercentUsed t) \<ge> minRisk
                               \<and> the (riskPercentUsed t) \<le> maxRisk) trades)"

definition hasEmotionalVolatility :: "trade list \<Rightarrow> bool" where
  "hasEmotionalVolatility trades =
     (if length trades < 2 then False
      else
        let sortedTrades = sortByEntry trades;
            hasHesitation =
              list_ex (\<lambda>t. exitedEarly t
                          \<or> (truthy (targetPercentAchieved t)
                              \<and> the (targetPercentAchieved t) < 60)) sortedTrades;
            hasImpulsive =
              list_ex (\<lambda>(prev, cur). isImpulsiveReentry cur (Some prev)) (neighbours sortedTrades)
        in hasImpulsive \<and> hasHesitation)"

record mental_battery =
  mb_battery :: int
  mb_status :: string
  mb_drainFactors :: "(string \<times> real) list"
  mb_rechargeFactors :: "(string \<times> real) list"
  mb_tradesAnalyzed :: nat

text \<open>
  \<^verbatim>\<open>calculateMentalBattery\<close>. Every drain or recharge factor is pushed together with
  its change of the battery, so the battery before clamping is 100 plus the impacts of
  the factors; the message and the behavioural interpretation, texts chosen from the
  status, the level and the factor types, are left out.
\<close>

definition calculateMentalBattery :: "trade list \<Rightarrow> plan option \<Rightarrow> real \<Rightarrow> mental_battery" where
  "calculateMentalBattery todayTrades plan planControlPercent =
     (let planRisk = planRiskOr1 plan in
      if length todayTrades = 0 then
        \<lparr>mb_battery = 100, mb_status = ''optimal'', mb_drainFactors = [],
         mb_rechargeFactors = [], mb_tradesAnalyzed = 0\<rparr>
      else
        let sortedTrades = sortByEntry todayTrades;
            impulsive =
              map (\<lambda>q. (''impulsive_reentry'', - 15))
                (filter (\<lambda>(prev, cur). isImpulsiveReentry cur (Some prev))
                   (neighbours sortedTrades));
            oversized =
              map (\<lambda>t. (''oversized_trade'', - 10))
                (filter (\<lambda>t. isOversizedTrade t planRisk) sortedTrades);
            clusterCount = detectClusters sortedTrades;
            clustered =
              (if clusterCount > 0 then [(''clustered_trades'', - (real clusterCount * 8))]
               else []);
            largeLosses =
              map (\<lambda>t. (''large_loss'', - 20))
                (filter (\<lambda>t. isLargeLoss t planRisk) sortedTrades);
            emotional =
              (if hasEmotionalVolatility sortedTrades then [(''emotional_volatility'', - 12)]
               else []);
            drainFactors = impulsive @ oversized @ clustered @ largeLosses @ emotional;
            pauseCount = detectDisciplinedPauses sortedTrades;
            paused =
              (if pauseCount > 0 then [(''disciplined_pauses'', min (real pauseCount * 5) 15)]
               else []);
            compliant =
              (if planControlPercent \<ge> 80 then [(''high_plan_compliance'', 8)] else []);
            stable =
              (if hasStableRiskUsage sortedTrades planRisk then [(''stable_risk'', 5)] else []);
            rechargeFactors = paused @ compliant @ stable;
            battery0 = 100 + sum_list (map snd drainFactors) + sum_list (map snd rechargeFactors);
            battery = max 0 (min 100 battery0);
            status = (if battery \<ge> 80 then ''optimal''
                      else if battery \<ge> 50 then ''strained'' else ''high_risk'')
        in \<lparr>mb_battery = js_round battery, mb_status = status, mb_drainFactors = drainFactors,
            mb_rechargeFactors = rechargeFactors, mb_tradesAnalyzed = length sortedTrades\<rparr>)"

section \<open>Psychological radar (zentra/psychologicalRadar.js, first part)\<close>

text \<open>The risks that are truthy: neither \<^verbatim>\<open>null\<close> nor 0.\<close>

definition risksUsed :: "trade list \<Rightarrow> real list" where
  "risksUsed trades =
     map (\<lambda>t. the (riskPercentUsed t)) (filter (\<lambda>t. truthy (riskPercentUsed t)) trades)"

definition diffHours :: "trade \<Rightarrow> trade \<Rightarrow> real" where
  "diffHours prev cur = real_of_int (entryTime cur - exitTime prev) / (1000 * 60 * 60)"

definition calculateDiscipline :: "trade list \<Rightarrow> plan option \<Rightarrow> real \<Rightarrow> int" where
  "calculateDiscipline trades plan planControlPercent =
     (let planRisk = planRiskOr1 plan;
          preferred = preferredOrEmpty plan;
          hasRiskBreach =
            list_ex (\<lambda>t. truthy (riskPercentUsed t) \<and> the (riskPercentUsed t) > planRisk * 1.3)
              trades;
          score1 = (if \<not> hasRiskBreach then planControlPercent + 10 else planControlPercent);
          hasSessionViolation =
            (length preferred > 0 \<and> list_ex (\<lambda>t. \<not> (tsession t \<in> set preferred)) trades);
          score2 = (if \<not> hasSessionViolation then score1 + 5 else score1)
      in min 100 (js_round score2))"

definition calculateImpulseControl :: "trade list \<Rightarrow> int" where
  "calculateImpulseControl trades =
     (if length trades < 2 then 100
      else
        let impulsiveCount = impulsivePairs (sortByEntry trades);
            raw = real impulsiveCount / 5 * 100
        in max 0 (js_round (100 - raw)))"

text \<open>The average truthy risk relative to the plan risk, times 50; 0 without any.\<close>

definition aggressionBase :: "trade list \<Rightarrow> real \<Rightarrow> real" where
  "aggressionBase trades planRisk =
     (if length (risksUsed trades) > 0
      then sum_list (risksUsed trades) / real (length (risksUsed trades)) / planRisk * 50
      else 0)"

definition calculateAggression :: "trade list \<Rightarrow> plan option \<Rightarrow> int" where
  "calculateAggression trades plan =
     (if length trades = 0 then 0
      else
        let planRisk = planRiskOr1 plan;
            base0 = aggressionBase trades planRisk;
            hasHighRisk =
              list_ex (\<lambda>t. truthy (riskPercentUsed t)
                          \<and> the (riskPercentUsed t) > planRisk * 1.5) trades;
            base1 = (if hasHighRisk then base0 + 20 else base0);
            hasRevengeTrade =
              list_ex (\<lambda>(prev, cur). profitLoss prev < 0 \<and> truthy (riskPercentUsed cur)
                                    \<and> the (riskPercentUsed cur) > planRisk * 1.3)
                (neighbours (sortByEntry trades));
            base2 = (if hasRevengeTrade then base1 + 15 else base1)
        in min 100 (js_round base2))"

definition calculateHesitation :: "trade list \<Rightarrow> int" where
  "calculateHesitation trades =
     (if length trades = 0 then 0
      else
        let hesitationCount = length (filter exitedEarly trades);
            base0 = real hesitationCount / 5 * 100;
            hasLowTargetWins =
              list_ex (\<lambda>t. profitLoss t > 0 \<and> truthy (targetPercentAchieved t)
                          \<and> the (targetPercentAchieved t) < 60) trades;
            base1 = (if hasLowTargetWins then base0 + 20 else base0);
            hasLongGap =
              list_ex (\<lambda>(prev, cur). diffHours prev cur > 4) (neighbours (sortByEntry trades));
            base2 = (if hasLongGap then base1 + 15 else base1)
        in min 100 (js_round base2))"

text \<open>
  The coefficient of variation of a list of risks in percent: population standard
  deviation over mean, 0 for a mean that is not positive.
\<close>

definition riskStdDev :: "real list \<Rightarrow> real" where
  "riskStdDev risks =
     (let avgRisk = sum_list risks / real (length risks);
          variance = sum_list (map (\<lambda>val. (val - avgRisk)\<^sup>2) risks) / real (length risks)
      in sqrt variance)"

definition riskVariability :: "real list \<Rightarrow> real" where
  "riskVariability risks =
     (let avgRisk = sum_list risks / real (length risks)
      in if avgRisk > 0 then riskStdDev risks / avgRisk * 100 else 0)"

definition calculateConsistency :: "trade list \<Rightarrow> plan option \<Rightarrow> int" where
  "calculateConsistency trades plan =
     (if length trades = 0 then 100
      else
        let preferred = preferredOrEmpty plan;
            variability =
              (if length (risksUsed trades) > 1 then riskVariability (risksUsed trades) else 0);
            score0 = 100 - variability;
            allInPreferred =
              (length preferred = 0 \<or> list_all (\<lambda>t. tsession t \<in> set preferred) trades);
            score1 = (if allInPreferred then score0 + 10 else score0);
            stableTiming =
              (\<not> list_ex (\<lambda>(prev, cur). diffHours prev cur < 0.5 \<or> diffHours prev cur > 6)
                   (neighbours (sortByEntry trades)));
            score2 = (if stableTiming \<and> length trades > 1 then score1 + 5 else score1)
        in max 0 (min 100 (js_round score2)))"

definition calculateEmotionalVolatility :: "int \<Rightarrow> int \<Rightarrow> int" where
  "calculateEmotionalVolatility aggressionScore hesitationScore =
     (let volatility0 = \<bar>real_of_int aggressionScore - real_of_int hesitationScore\<bar> / 2;
          volatility1 = (if aggressionScore > 60 \<and> hesitationScore > 60
                         then volatility0 + 20 else volatility0)
      in min 100 (js_round volatility1))"

record radar_traits =
  discipline :: int
  impulseControl :: int
  aggression :: int
  hesitation :: int
  consistency :: int
  emotionalVolatility :: int

record radar =
  rd_traits :: radar_traits
  rd_tradesAnalyzed :: nat

text \<open>\<^verbatim>\<open>calculatePsychologicalRadar\<close>, without its message.\<close>

definition calculatePsychologicalRadar :: "trade list \<Rightarrow> plan option \<Rightarrow> radar" where
  "calculatePsychologicalRadar trades plan =
     (if length trades = 0 then
        \<lparr>rd_traits = \<lparr>discipline = 0, impulseControl = 100, aggression = 0, hesitation = 0,
                      consistency = 100, emotionalVolatility = 0\<rparr>,
         rd_tradesAnalyzed = 0\<rparr>
      else
        let recentTrades = take 5 trades;
            planControlPercent = pc_percentage (calculatePlanControl recentTrades plan);
            a = calculateAggression recentTrades plan;
            h = calculateHesitation recentTrades
        in \<lparr>rd_traits =
              \<lparr>discipline = calculateDiscipline recentTrades plan (real_of_int planControlPercent),
               impulseControl = calculateImpulseControl recentTrades,
               aggression = a, hesitation = h,
               consistency = calculateConsistency recentTrades plan,
               emotionalVolatility = calculateEmotionalVolatility a h\<rparr>,
            rd_tradesAnalyzed = length recentTrades\<rparr>)"

section \<open>Behavior heatmap (zentra/psychologicalRadar.js, third part)\<close>

record time_window =
  tw_id :: string
  tw_startHour :: nat
  tw_endHour :: nat

definition TIME_WINDOWS :: "time_window list" where
  "TIME_WINDOWS =
     [\<lparr>tw_id = ''00-03'', tw_startHour = 0, tw_endHour = 3\<rparr>,
      \<lparr>tw_id = ''03-06'', tw_startHour = 3, tw_endHour = 6\<rparr>,
      \<lparr>tw_id = ''06-09'', tw_startHour = 6, tw_endHour = 9\<rparr>,
      \<lparr>tw_id = ''09-12'', tw_startHour = 9, tw_endHour = 12\<rparr>,
      \<lparr>tw_id = ''12-15'', tw_startHour = 12, tw_endHour = 15\<rparr>,
      \<lparr>tw_id = ''15-18'', tw_startHour = 15, tw_endHour = 18\<rparr>,
      \<lparr>tw_id = ''18-21'', tw_startHour = 18, tw_endHour = 21\<rparr>,
      \<lparr>tw_id = ''21-24'', tw_startHour = 21, tw_endHour = 24\<rparr>]"

text \<open>
  \<^verbatim>\<open>getTimeWindow\<close>; \<open>getHours\<close> stands for \<^verbatim>\<open>new Date(t).getHours()\<close>, the hour of a
  timestamp in the server's time zone.
\<close>

definition getTimeWindow :: "(int \<Rightarrow> nat) \<Rightarrow> trade \<Rightarrow> time_window option" where
  "getTimeWindow getHours t =
     (let entryHour = getHours (entryTime t)
      in find (\<lambda>w. entryHour \<ge> tw_startHour w \<and> entryHour < tw_endHour w) TIME_WINDOWS)"

definition calculateWinLossExpectancy :: "trade list \<Rightarrow> real" where
  "calculateWinLossExpectancy trades =
     (if length trades = 0 then 50
      else
        let wins = length (filter (\<lambda>t. profitLoss t > 0) trades);
            losses = length (filter (\<lambda>t. profitLoss t < 0) trades);
            expectancy = (real wins - real losses) / real (length trades) * 50 + 50
        in max 0 (min 100 expectancy))"

definition calculateWindowPlanCompliance :: "trade list \<Rightarrow> plan option \<Rightarrow> int" where
  "calculateWindowPlanCompliance trades plan =
     (if length trades = 0 then 50
      else
        let sortedTrades = sortByEntry trades;
            totalScore =
              sum_list (map (\<lambda>(t, prev). ts_score (calculateTradeScore t plan prev))
                          (withPrevious sortedTrades))
        in js_round (real totalScore / real (length trades)))"

definition calculateImpulsivenessPenalty :: "trade list \<Rightarrow> real" where
  "calculateImpulsivenessPenalty trades =
     (if length trades < 2 then 0
      else min (real (impulsivePairs (sortByEntry trades)) * 15) 100)"

definition calculateHesitationPenalty :: "trade list \<Rightarrow> real" where
  "calculateHesitationPenalty trades =
     (if length trades = 0 then 0
      else
        let hesitationCount =
              length (filter (\<lambda>t. if exitedEarly t then True
                                   else truthy (targetPercentAchieved t)
                                        \<and> the (targetPercentAchieved t) < 60
                                        \<and> profitLoss t > 0) trades)
        in min (real hesitationCount * 10) 100)"

definition calculateRiskDeviationPenalty :: "trade list \<Rightarrow> real \<Rightarrow> int" where
  "calculateRiskDeviationPenalty trades planRisk =
     (if length trades = 0 \<or> planRisk = 0 then 0
      else if length (risksUsed trades) = 0 then 0
      else
        let stdDev = riskStdDev (risksUsed trades);
            penalty = min (stdDev / planRisk * 50) 100
        in js_round penalty)"

definition calculateVolatilityPenalty :: "trade list \<Rightarrow> real \<Rightarrow> real" where
  "calculateVolatilityPenalty trades planRisk =
     (if length trades < 2 \<or> planRisk = 0 then 0
      else
        let hasOversized =
              list_ex (\<lambda>t. truthy (riskPercentUsed t)
                          \<and> the (riskPercentUsed t) > planRisk * 1.3) trades;
            hasUndersized =
              list_ex (\<lambda>t. truthy (riskPercentUsed t)
                          \<and> the (riskPercentUsed t) < planRisk * 0.7) trades
        in if hasOversized \<and> hasUndersized then 20 else 0)"

definition calculateFrequencyPenalty :: "trade list \<Rightarrow> real" where
  "calculateFrequencyPenalty trades =
     (if length trades \<le> 3 then 0 else min ((real (length trades) - 3) * 5) 25)"

record window_metrics =
  wm_winLoss :: int
  wm_planCompliance :: int
  wm_impulsiveness :: int
  wm_hesitation :: int
  wm_riskDeviation :: int
  wm_volatility :: int
  wm_frequency :: int

record window_score =
  ws_score :: int
  ws_metrics :: window_metrics

definition calculateWindowScore :: "trade list \<Rightarrow> plan option \<Rightarrow> window_score" where
  "calculateWindowScore trades plan =
     (let planRisk = planRiskOr1 plan;
          winLoss = calculateWinLossExpectancy trades;
          planCompliance = real_of_int (calculateWindowPlanCompliance trades plan);
          impulsiveness = calculateImpulsivenessPenalty trades;
          hesitationPenalty = calculateHesitationPenalty trades;
          riskDev = real_of_int (calculateRiskDeviationPenalty trades planRisk);
          volatilityPenalty = calculateVolatilityPenalty trades planRisk;
          frequency = calculateFrequencyPenalty trades;
          score =
            winLoss * 0.2 + planCompliance * 0.3 + (100 - impulsiveness) * 0.15
            + (100 - hesitationPenalty) * 0.15 + (100 - riskDev) * 0.1
            + (100 - volatilityPenalty) * 0.05 + (100 - frequency) * 0.05
      in \<lparr>ws_score = js_round (max 0 (min 100 score)),
          ws_metrics =
            \<lparr>wm_winLoss = js_round winLoss, wm_planCompliance = js_round planCompliance,
             wm_impulsiveness = js_round impulsiveness,
             wm_hesitation = js_round hesitationPenalty, wm_riskDeviation = js_round riskDev,
             wm_volatility = js_round volatilityPenalty, wm_frequency = js_round frequency\<rparr>\<rparr>)"

definition getColorStatus :: "int \<Rightarrow> string" where
  "getColorStatus score =
     (if score \<ge> 70 then ''green'' else if score \<ge> 40 then ''yellow'' else ''red'')"

record heatmap_window =
  hw_window :: time_window
  hw_score :: "int option"
  hw_color :: string
  hw_tradeCount :: nat
  hw_metrics :: "window_metrics option"

record heatmap =
  hm_windows :: "heatmap_window list"
  hm_totalTrades :: nat

text \<open>\<^verbatim>\<open>calculateBehaviorHeatmap\<close>, without the window messages.\<close>

definition calculateBehaviorHeatmap :: "(int \<Rightarrow> nat) \<Rightarrow> trade list \<Rightarrow> plan option \<Rightarrow> heatmap" where
  "calculateBehaviorHeatmap getHours trades plan =
     \<lparr>hm_windows =
        map (\<lambda>window.
               let windowTrades =
                     filter (\<lambda>t. case getTimeWindow getHours t of
                                    None \<Rightarrow> False
                                  | Some tw \<Rightarrow> tw_id tw = tw_id window) trades
               in if length windowTrades = 0 then
                    \<lparr>hw_window = window, hw_score = None, hw_color = ''grey'',
                     hw_tradeCount = 0, hw_metrics = None\<rparr>
                  else
                    let r = calculateWindowScore windowTrades plan
                    in \<lparr>hw_window = window, hw_score = Some (ws_score r),
                        hw_color = getColorStatus (ws_score r),
                        hw_tradeCount = length windowTrades,
                        hw_metrics = Some (ws_metrics r)\<rparr>)
          TIME_WINDOWS,
      hm_totalTrades = length trades\<rparr>"

section \<open>Consistency trend: risk consistency (zentra/consistencyTrend.js, first part)\<close>


section \<open>The range of a score\<close>

definition in_range :: "int \<Rightarrow> bool" where
  "in_range x = (0 \<le> x \<and> x \<le> 100)"

section \<open>Concrete inputs\<close>

text \<open>A single oversized trade in a session the plan does not list.\<close>

definition asia_trade :: trade where
  "asia_trade =
     \<lparr>tradeId = 1, entryTime = 0, exitTime = 1000, profitLoss = 10,
      riskPercentUsed = Some 5, riskRewardAchieved = None, targetPercentAchieved = None,
      tsession = ASIA, stopLossHit = False, exitedEarly = False, tnotes = None\<rparr>"

definition london_plan :: plan where
  "london_plan =
     \<lparr>maxTradesPerDay = 5, riskPercentPerTrade = 1, targetRiskRewardRatio = 2,
      preferredSessions = [LONDON]\<rparr>"

text \<open>
  The worked example of the technical guide: ten trades, most recent first, six wins,
  risks averaging 1.8 with two above 2.25, the last one 2.6, every risk/reward 1.4, six
  days with trades of which two have an ASIA trade.
\<close>

definition doc_plan :: plan where
  "doc_plan =
     \<lparr>maxTradesPerDay = 5, riskPercentPerTrade = 1.5, targetRiskRewardRatio = 2,
      preferredSessions = [LONDON, NY]\<rparr>"

definition doc_trade :: "nat \<Rightarrow> int \<Rightarrow> real \<Rightarrow> real \<Rightarrow> real \<Rightarrow> session \<Rightarrow> trade" where
  "doc_trade i day pl risk target sess =
     \<lparr>tradeId = i, entryTime = day * 86400000 + 36000000,
      exitTime = day * 86400000 + 39600000,
      profitLoss = pl, riskPercentUsed = Some risk, riskRewardAchieved = Some 1.4,
      targetPercentAchieved = Some target, tsession = sess, stopLossHit = False,
      exitedEarly = False, tnotes = None\<rparr>"

definition doc_trades :: "trade list" where
  "doc_trades =
     [doc_trade 10 6 10 2.6 80 LONDON, doc_trade 9 6 10 2.6 80 NY,
      doc_trade 8 5 10 1.6 80 LONDON, doc_trade 7 5 10 1.6 80 NY,
      doc_trade 6 4 10 1.6 80 LONDON, doc_trade 5 4 10 1.6 80 NY,
      doc_trade 4 3 (-5) 1.6 50 LONDON, doc_trade 3 3 (-5) 1.6 50 NY,
      doc_trade 2 2 (-5) 1.6 50 ASIA, doc_trade 1 1 (-5) 1.6 50 ASIA]"

text \<open>
  Three trades an hour apart, most recent first as the history service fetches them:
  an early exit, then an oversized loss, then an oversized loss outside the plan's session.
\<close>

definition hist_t1 :: trade where
  "hist_t1 =
     \<lparr>tradeId = 1, entryTime = 0, exitTime = 600000, profitLoss = 10,
      riskPercentUsed = Some 0.5, riskRewardAchieved = None, targetPercentAchieved = Some 20,
      tsession = LONDON, stopLossHit = False, exitedEarly = True, tnotes = None\<rparr>"

definition hist_t2 :: trade where
  "hist_t2 =
     \<lparr>tradeId = 2, entryTime = 3600000, exitTime = 4200000, profitLoss = - 5,
      riskPercentUsed = Some 2.1, riskRewardAchieved = None, targetPercentAchieved = Some 50,
      tsession = LONDON, stopLossHit = False, exitedEarly = False, tnotes = None\<rparr>"

definition hist_t3 :: trade where
  "hist_t3 =
     \<lparr>tradeId = 3, entryTime = 7200000, exitTime = 7800000, profitLoss = - 5,
      riskPercentUsed = Some 2.1, riskRewardAchieved = None, targetPercentAchieved = Some 50,
      tsession = ASIA, stopLossHit = False, exitedEarly = False, tnotes = None\<rparr>"

definition hist_trades :: "trade list" where
  "hist_trades = [hist_t3, hist_t2, hist_t1]"

text \<open>
  Two trades inside the trailing hour of the clock reading 7200000, the second entered
  five minutes after the first was closed.
\<close>

definition hour_trades :: "trade list" where
  "hour_trades =
     [\<lparr>tradeId = 2, entryTime = 6000000, exitTime = 6300000, profitLoss = 5,
       riskPercentUsed = Some 1, riskRewardAchieved = None, targetPercentAchieved = None,
       tsession = LONDON, stopLossHit = False, exitedEarly = False, tnotes = None\<rparr>,
      \<lparr>tradeId = 1, entryTime = 5400000, exitTime = 5700000, profitLoss = 5,
       riskPercentUsed = Some 1, riskRewardAchieved = None, targetPercentAchieved = None,
       tsession = LONDON, stopLossHit = False, exitedEarly = False, tnotes = None\<rparr>]"

text \<open>The hour of a timestamp for a server running in UTC.\<close>

definition utcHours :: "int \<Rightarrow> nat" where
  "utcHours t = nat ((t div 3600000) mod 24)"







section \<open>Session forecast: the risk level is never LOW\<close>

text \<open>
  Claim C10. For every trade list, requested session, plan and current state, the no-data
  fallback included, the session forecast has a risk level other than LOW and a forecast
  label other than POSITIVE: the level starts at MEDIUM and is only ever set to HIGH or
  MEDIUM.
\<close>

theorem sessionForecast_never_low_positive:
  "sf_riskLevel (analyzeSessionForecast trades sess plan currentState) \<noteq> LOW
   \<and> sf_forecast (analyzeSessionForecast trades sess plan currentState) \<noteq> ''POSITIVE''"
  by (simp add: analyzeSessionForecast_def Let_def split: option.split)
section \<open>Properties of the state classifier\<close>

lemma confidence_range:
  "10 \<le> calculateConfidence m a r n \<and> calculateConfidence m a r n \<le> 95"
  unfolding calculateConfidence_def Let_def by (simp add: min_def max_def)

lemma confidence_small:
  "n < 5 \<Longrightarrow> calculateConfidence m a r n \<le> 40"
  unfolding calculateConfidence_def Let_def by simp

lemma daysWithTrades_pos: "0 < daysWithTrades (calculateDayMetrics ts p)"
  unfolding calculateDayMetrics_def Let_def by simp

lemma analyze_nonempty:
  "trades \<noteq> [] \<Longrightarrow>
   analyzePsychologicalState trades (Some p) =
     (let a = analyzedTrades trades;
          n = length a;
          m = calculateBasicMetrics a;
          dm = calculateDayMetrics a p;
          rm = riskMetricsOf trades p;
          pa = calculatePlanAdherence (rm_riskBreaches rm) (nearTargetHits m) dm n;
          st = determineState m dm rm (planRiskOf p) n
      in \<lparr>sa_state = sr_state st,
          sa_confidence = calculateConfidence m pa (planRiskOf p) n,
          sa_planAdherence = pa, sa_analyzedTradeCount = n,
          sa_indicators = sr_indicators st, sa_recommendations = sr_recommendations st\<rparr>)"
  unfolding analyzePsychologicalState_def Let_def by simp

lemma determineState_state:
  "sr_state (determineState m dm rm r n) =
     (if overextended dm then OVEREXTENDED
      else if aggressive rm r n then AGGRESSIVE
      else if hesitant m n then HESITANT else STABLE)"
  unfolding determineState_def by simp

lemma analyzed_nonempty: "trades \<noteq> [] \<Longrightarrow> 0 < length (analyzedTrades trades)"
  unfolding analyzedTrades_def by (cases trades) simp_all

lemma overextended_iff:
  "0 < daysWithTrades dm \<Longrightarrow>
   overextended dm =
     (real (exceededDays dm) / real (daysWithTrades dm) \<ge> 0.33
      \<or> real (outsideSessionDays dm) / real (daysWithTrades dm) \<ge> 0.33)"
  unfolding overextended_def by simp

lemma max_one_pos: "0 < n \<Longrightarrow> max 1 n = (n::nat)"
  by simp

lemma aggressive_iff:
  "0 < n \<Longrightarrow>
   aggressive rm r n =
     (rm_riskSpike rm \<or> real (rm_riskBreaches rm) / real n \<ge> 0.25
      \<or> rm_avgRiskUsed rm > r * 1.25)"
  unfolding aggressive_def by (simp only: max_one_pos)

lemma hesitant_iff:
  "0 < n \<Longrightarrow>
   hesitant m n =
     (real (earlyExits m) / real n \<ge> 0.4 \<or> (medianTargetPct m < 60 \<and> winRate m \<le> 0.6))"
  unfolding hesitant_def by (simp only: max_one_pos)

lemma asia_dayMetrics:
  "calculateDayMetrics [asia_trade] london_plan =
     \<lparr>daysWithTrades = 1, exceededDays = 0, outsideSessionDays = 1\<rparr>"
  by (simp add: calculateDayMetrics_def countDay_def markOutside_def asia_trade_def
        london_plan_def dayKey_def)

lemma asia_riskMetrics:
  "riskMetricsOf [asia_trade] london_plan =
     \<lparr>rm_riskSpike = False, rm_last3Breaches = 0, rm_riskBreaches = 1, rm_avgRiskUsed = 5\<rparr>"
  by (simp add: riskMetricsOf_def analyzedTrades_def calculateRiskSpike_def
        calculateRiskBreaches_def calculateBasicMetrics_def avgRiskOr_def mean_or_def
        planRiskOf_def or_default_def asia_trade_def london_plan_def Let_def)

text \<open>
  Claim C2. The classifier is a total function of the trade list and the plan. Without a
  plan or without trades it returns STABLE; otherwise its state is decided in the order
  OVEREXTENDED, AGGRESSIVE, HESITANT, STABLE by the three threshold tests on the metrics of
  the analysed window, so that a window meeting both the OVEREXTENDED test
  (exceededDays/daysWithTrades at least 0.33 or outsideSessionDays/daysWithTrades at least
  0.33) and the AGGRESSIVE test (riskSpike, or riskBreaches/N at least 0.25, or avgRiskUsed
  above planRisk*1.25) is classified OVEREXTENDED.
\<close>

theorem state_priority:
  assumes "trades \<noteq> []"
  shows
  "(let a = analyzedTrades trades;
        n = length a;
        m = calculateBasicMetrics a;
        dm = calculateDayMetrics a p;
        rm = riskMetricsOf trades p;
        over = (real (exceededDays dm) / real (daysWithTrades dm) \<ge> 0.33
                \<or> real (outsideSessionDays dm) / real (daysWithTrades dm) \<ge> 0.33);
        aggr = (rm_riskSpike rm \<or> real (rm_riskBreaches rm) / real n \<ge> 0.25
                \<or> rm_avgRiskUsed rm > planRiskOf p * 1.25);
        hes = (real (earlyExits m) / real n \<ge> 0.4
               \<or> (medianTargetPct m < 60 \<and> winRate m \<le> 0.6));
        st = sa_state (analyzePsychologicalState trades (Some p))
    in st = (if over then OVEREXTENDED else if aggr then AGGRESSIVE
             else if hes then HESITANT else STABLE)
       \<and> (over \<and> aggr \<longrightarrow> st = OVEREXTENDED))
   \<and> sa_state (analyzePsychologicalState trades None) = STABLE
   \<and> sa_state (analyzePsychologicalState [] plan) = STABLE"
proof -
  let ?a = "analyzedTrades trades"
  have n: "0 < length ?a"
    by (rule analyzed_nonempty [OF assms])
  have d: "0 < daysWithTrades (calculateDayMetrics ?a p)"
    by (rule daysWithTrades_pos)
  have st: "sa_state (analyzePsychologicalState trades (Some p)) =
     (if overextended (calculateDayMetrics ?a p) then OVEREXTENDED
      else if aggressive (riskMetricsOf trades p) (planRiskOf p) (length ?a) then AGGRESSIVE
      else if hesitant (calculateBasicMetrics ?a) (length ?a) then HESITANT else STABLE)"
    unfolding analyze_nonempty [OF assms] Let_def
    by (simp only: state_analysis.simps determineState_state)
  have fb: "sa_state (analyzePsychologicalState trades None) = STABLE"
    "sa_state (analyzePsychologicalState [] plan) = STABLE"
    by (simp_all add: analyzePsychologicalState_def split: option.split)
  show ?thesis
    unfolding Let_def st overextended_iff [OF d] aggressive_iff [OF n] hesitant_iff [OF n]
    using fb by simp
qed

theorem state_priority_witness:
  "[asia_trade] \<noteq> []
   \<and> real (outsideSessionDays (calculateDayMetrics (analyzedTrades [asia_trade]) london_plan))
        / real (daysWithTrades (calculateDayMetrics (analyzedTrades [asia_trade]) london_plan))
      \<ge> 0.33
   \<and> real (rm_riskBreaches (riskMetricsOf [asia_trade] london_plan))
        / real (length (analyzedTrades [asia_trade])) \<ge> 0.25
   \<and> sa_state (analyzePsychologicalState [asia_trade] (Some london_plan)) = OVEREXTENDED"
  using state_priority [of "[asia_trade]" london_plan]
  by (simp add: Let_def analyzedTrades_def asia_dayMetrics asia_riskMetrics)

text \<open>
  Claim C3, as the code has it. For every input the confidence lies in [10, 95]. When a
  plan is present and the analysed window holds between one and four trades, the
  confidence is at most 40. Without a plan or without trades the fallback returns the
  fixed confidence 50, which the small-sample cap does not apply to.
\<close>

theorem confidence_bounds:
  "10 \<le> sa_confidence (analyzePsychologicalState trades plan)
   \<and> sa_confidence (analyzePsychologicalState trades plan) \<le> 95
   \<and> (plan \<noteq> None \<and> trades \<noteq> [] \<and> length (analyzedTrades trades) < 5
        \<longrightarrow> sa_confidence (analyzePsychologicalState trades plan) \<le> 40)
   \<and> (plan = None \<or> trades = []
        \<longrightarrow> sa_confidence (analyzePsychologicalState trades plan) = 50)"
proof (cases "plan = None \<or> trades = []")
  case True
  then have "sa_confidence (analyzePsychologicalState trades plan) = 50"
    by (auto simp: analyzePsychologicalState_def split: option.split)
  with True show ?thesis by auto
next
  case False
  then obtain p where p: "plan = Some p" and ne: "trades \<noteq> []" by auto
  have c: "sa_confidence (analyzePsychologicalState trades (Some p)) =
     calculateConfidence (calculateBasicMetrics (analyzedTrades trades))
       (sa_planAdherence (analyzePsychologicalState trades (Some p))) (planRiskOf p)
       (length (analyzedTrades trades))"
    unfolding analyze_nonempty [OF ne] Let_def by simp
  show ?thesis
    using False confidence_range confidence_small unfolding p c by blast
qed

theorem confidence_bounds_witness:
  "Some london_plan \<noteq> None \<and> [asia_trade] \<noteq> [] \<and> length (analyzedTrades [asia_trade]) < 5
   \<and> sa_confidence (analyzePsychologicalState [asia_trade] (Some london_plan)) \<le> 40
   \<and> sa_confidence (analyzePsychologicalState [] (Some london_plan)) = 50"
  using confidence_bounds [of "[asia_trade]" "Some london_plan"]
    confidence_bounds [of "[]" "Some london_plan"]
  by (simp add: analyzedTrades_def)

text \<open>
  The zero-trade window has fewer than 5 trades, yet its confidence is 50, above 40.
\<close>

theorem confidence_cap_counterexample:
  "length (analyzedTrades []) < 5
   \<and> \<not> sa_confidence (analyzePsychologicalState [] (Some london_plan)) \<le> 40"
  by (simp add: analyzePsychologicalState_def analyzedTrades_def)

subsection \<open>The worked example\<close>

lemma doc_analyzed: "analyzedTrades doc_trades = doc_trades"
  by (simp add: analyzedTrades_def doc_trades_def)

lemma doc_basicMetrics:
  "calculateBasicMetrics doc_trades =
     \<lparr>winRate = 0.6, avgRiskUsed = 1.8, avgRR = 1.4, medianTargetPct = 80,
      nearTargetHits = 6, earlyExits = 6\<rparr>"
  by (simp del: not_None_eq add: calculateBasicMetrics_def doc_trades_def doc_trade_def
        mean_or_def computeMedian_def isEarlyExit_def Let_def)

lemma doc_dayMetrics:
  "calculateDayMetrics doc_trades doc_plan =
     \<lparr>daysWithTrades = 6, exceededDays = 0, outsideSessionDays = 2\<rparr>"
  by (simp add: calculateDayMetrics_def countDay_def markOutside_def doc_trades_def
        doc_trade_def doc_plan_def dayKey_def Let_def)

lemma doc_riskMetrics:
  "riskMetricsOf doc_trades doc_plan =
     \<lparr>rm_riskSpike = True, rm_last3Breaches = 2, rm_riskBreaches = 2, rm_avgRiskUsed = 1.8\<rparr>"
  by (simp del: not_None_eq add: riskMetricsOf_def doc_analyzed doc_basicMetrics
        calculateRiskSpike_def calculateRiskBreaches_def avgRiskOr_def planRiskOf_def
        or_default_def doc_plan_def mean_or_def Let_def)
     (simp del: not_None_eq add: doc_trades_def doc_trade_def)

lemma mean_or_nonzero: "mean_or 0 xs = v \<Longrightarrow> v \<noteq> 0 \<Longrightarrow> mean_or d xs = v"
  unfolding mean_or_def by (auto split: if_splits)

lemma riskSpike_threshold:
  assumes "avgRiskUsed (calculateBasicMetrics (analyzedTrades trades)) = v" "v \<noteq> 0"
  shows "rm_riskSpike (riskMetricsOf trades p) =
     (2 \<le> length (filter (\<lambda>t. riskPercentUsed t \<noteq> None
                 \<and> the (riskPercentUsed t) > max (planRiskOf p * 1.3) (v * 1.3)) (take 3 trades)))"
proof -
  let ?a = "analyzedTrades trades"
  let ?xs = "map (\<lambda>t. the (riskPercentUsed t)) (filter (\<lambda>t. riskPercentUsed t \<noteq> None) ?a)"
  have ne: "?a \<noteq> []"
    using assms unfolding calculateBasicMetrics_def Let_def by (auto split: if_splits)
  have "mean_or 0 ?xs = v"
    using assms(1) ne unfolding calculateBasicMetrics_def Let_def by (simp del: not_None_eq)
  then have r: "mean_or (planRiskOf p) ?xs = v"
    using assms(2) by (rule mean_or_nonzero)
  have t: "take 3 ?a = take 3 trades"
    unfolding analyzedTrades_def by simp
  show ?thesis
    unfolding riskMetricsOf_def calculateRiskSpike_def avgRiskOr_def Let_def
    using ne by (simp del: not_None_eq add: r t)
qed

lemma doc_planAdherence:
  "calculatePlanAdherence 2 6
     \<lparr>daysWithTrades = 6, exceededDays = 0, outsideSessionDays = 2\<rparr> 10 = 80"
  unfolding calculatePlanAdherence_def js_round_def or_default_def Let_def by simp

text \<open>
  Claim C4, as the code has it. For the plan with riskPercentPerTrade 1.5 and every
  10-trade window with win rate 0.6, average risk 1.8, 2 risk breaches, 0 exceeded days and
  2 outside-session days out of 6 days with trades: with 6 near-target hits the plan
  adherence is 80, with a median target percentage between 40 and 80 the confidence is 74,
  and the state is OVEREXTENDED, because 2/6 reaches the 0.33 threshold that is tested
  before the AGGRESSIVE conditions. The risk spike is raised exactly when at least two of
  the three most recent trades carry a risk above max(1.5*1.3, 1.8*1.3) = 2.34.
\<close>

theorem worked_example:
  assumes len: "length (analyzedTrades trades) = 10"
    and risk: "riskPercentPerTrade p = 1.5"
    and wins: "winRate (calculateBasicMetrics (analyzedTrades trades)) = 0.6"
    and avg: "avgRiskUsed (calculateBasicMetrics (analyzedTrades trades)) = 1.8"
    and breaches: "rm_riskBreaches (riskMetricsOf trades p) = 2"
    and near: "nearTargetHits (calculateBasicMetrics (analyzedTrades trades)) = 6"
    and days: "calculateDayMetrics (analyzedTrades trades) p =
                 \<lparr>daysWithTrades = 6, exceededDays = 0, outsideSessionDays = 2\<rparr>"
    and med: "40 \<le> medianTargetPct (calculateBasicMetrics (analyzedTrades trades))"
             "medianTargetPct (calculateBasicMetrics (analyzedTrades trades)) \<le> 80"
  shows "sa_planAdherence (analyzePsychologicalState trades (Some p)) = 80
     \<and> sa_confidence (analyzePsychologicalState trades (Some p)) = 74
     \<and> sa_state (analyzePsychologicalState trades (Some p)) = OVEREXTENDED
     \<and> (rm_riskSpike (riskMetricsOf trades p) =
          (2 \<le> length (filter (\<lambda>t. riskPercentUsed t \<noteq> None
                      \<and> the (riskPercentUsed t) > 2.34) (take 3 trades))))"
proof -
  let ?a = "analyzedTrades trades"
  let ?m = "calculateBasicMetrics ?a"
  have ne: "trades \<noteq> []"
    using len unfolding analyzedTrades_def by auto
  have pr: "planRiskOf p = 1.5"
    unfolding planRiskOf_def or_default_def risk by simp
  have sg: "signalStrength ?m 1.5 = 0.2"
    unfolding signalStrength_def using wins avg med by (simp add: abs_if max_def)
  have cf: "calculateConfidence ?m 80 1.5 10 = 74"
    unfolding calculateConfidence_def Let_def sg js_round_def by simp
  have ov: "overextended \<lparr>daysWithTrades = 6, exceededDays = 0, outsideSessionDays = 2\<rparr>"
    unfolding overextended_def by simp
  have sp: "rm_riskSpike (riskMetricsOf trades p) =
          (2 \<le> length (filter (\<lambda>t. riskPercentUsed t \<noteq> None
                      \<and> the (riskPercentUsed t) > 2.34) (take 3 trades)))"
    using riskSpike_threshold [OF avg, of p] by (simp del: not_None_eq add: pr)
  show ?thesis
    unfolding analyze_nonempty [OF ne] Let_def
    by (simp only: state_analysis.simps determineState_state len breaches near days pr
          doc_planAdherence cf ov if_True sp simp_thms)
qed

theorem worked_example_witness:
  "length (analyzedTrades doc_trades) = 10
   \<and> riskPercentPerTrade doc_plan = 1.5
   \<and> winRate (calculateBasicMetrics (analyzedTrades doc_trades)) = 0.6
   \<and> avgRiskUsed (calculateBasicMetrics (analyzedTrades doc_trades)) = 1.8
   \<and> rm_riskBreaches (riskMetricsOf doc_trades doc_plan) = 2
   \<and> nearTargetHits (calculateBasicMetrics (analyzedTrades doc_trades)) = 6
   \<and> calculateDayMetrics (analyzedTrades doc_trades) doc_plan =
        \<lparr>daysWithTrades = 6, exceededDays = 0, outsideSessionDays = 2\<rparr>
   \<and> 40 \<le> medianTargetPct (calculateBasicMetrics (analyzedTrades doc_trades))
   \<and> medianTargetPct (calculateBasicMetrics (analyzedTrades doc_trades)) \<le> 80
   \<and> sa_planAdherence (analyzePsychologicalState doc_trades (Some doc_plan)) = 80
   \<and> sa_confidence (analyzePsychologicalState doc_trades (Some doc_plan)) = 74
   \<and> sa_state (analyzePsychologicalState doc_trades (Some doc_plan)) = OVEREXTENDED"
proof -
  have h: "length (analyzedTrades doc_trades) = 10"
    "riskPercentPerTrade doc_plan = 1.5"
    "winRate (calculateBasicMetrics (analyzedTrades doc_trades)) = 0.6"
    "avgRiskUsed (calculateBasicMetrics (analyzedTrades doc_trades)) = 1.8"
    "rm_riskBreaches (riskMetricsOf doc_trades doc_plan) = 2"
    "nearTargetHits (calculateBasicMetrics (analyzedTrades doc_trades)) = 6"
    "calculateDayMetrics (analyzedTrades doc_trades) doc_plan =
        \<lparr>daysWithTrades = 6, exceededDays = 0, outsideSessionDays = 2\<rparr>"
    "40 \<le> medianTargetPct (calculateBasicMetrics (analyzedTrades doc_trades))"
    "medianTargetPct (calculateBasicMetrics (analyzedTrades doc_trades)) \<le> 80"
    by (simp_all add: doc_analyzed doc_basicMetrics doc_dayMetrics doc_riskMetrics)
       (simp_all add: doc_trades_def doc_plan_def)
  show ?thesis
    using h worked_example [OF h] by simp
qed

text \<open>
  The example's figures at a concrete window: the risk spike is raised, the plan
  adherence is 80 and the confidence 74, but the state is not AGGRESSIVE.
\<close>

theorem worked_example_counterexample:
  "length doc_trades = 10
   \<and> calculateBasicMetrics doc_trades =
       \<lparr>winRate = 0.6, avgRiskUsed = 1.8, avgRR = 1.4, medianTargetPct = 80,
        nearTargetHits = 6, earlyExits = 6\<rparr>
   \<and> riskPercentUsed (hd doc_trades) = Some 2.6
   \<and> calculateDayMetrics doc_trades doc_plan =
       \<lparr>daysWithTrades = 6, exceededDays = 0, outsideSessionDays = 2\<rparr>
   \<and> riskMetricsOf doc_trades doc_plan =
       \<lparr>rm_riskSpike = True, rm_last3Breaches = 2, rm_riskBreaches = 2, rm_avgRiskUsed = 1.8\<rparr>
   \<and> sa_state (analyzePsychologicalState doc_trades (Some doc_plan)) \<noteq> AGGRESSIVE"
proof -
  have ne: "doc_trades \<noteq> []"
    by (simp add: doc_trades_def)
  have ov: "overextended \<lparr>daysWithTrades = 6, exceededDays = 0, outsideSessionDays = 2\<rparr>"
    unfolding overextended_def by simp
  have "sa_state (analyzePsychologicalState doc_trades (Some doc_plan)) = OVEREXTENDED"
    unfolding analyze_nonempty [OF ne] Let_def
    by (simp only: state_analysis.simps determineState_state doc_analyzed doc_dayMetrics ov
          if_True)
  moreover have "length doc_trades = 10" "riskPercentUsed (hd doc_trades) = Some 2.6"
    by (simp_all add: doc_trades_def doc_trade_def)
  ultimately show ?thesis
    by (simp add: doc_basicMetrics doc_dayMetrics doc_riskMetrics)
qed

section \<open>Properties of the performance insights\<close>

lemma positiveReinforcement_types:
  "map in_type (positiveReinforcement a w) = (if a \<ge> 70 \<or> w \<ge> 60 then [POSITIVE] else [])"
  unfolding positiveReinforcement_def by simp

lemma positiveReinforcement_titles:
  "map in_title (positiveReinforcement a w) =
     (if a \<ge> 70 then [''Strong plan adherence'']
      else if w \<ge> 60 then [''Solid win rate''] else [])"
  unfolding positiveReinforcement_def by simp

lemma constructiveFeedback_types:
  "map in_type (constructiveFeedback e n a) =
     (if real e / real n \<ge> 0.3 \<or> a < 60 then [CONSTRUCTIVE] else [])"
  unfolding constructiveFeedback_def by simp

lemma constructiveFeedback_titles:
  "map in_title (constructiveFeedback e n a) =
     (if real e / real n \<ge> 0.3 then [''Exiting too early'']
      else if a < 60 then [''Improve plan adherence''] else [])"
  unfolding constructiveFeedback_def by simp

lemma filter_type_titles:
  "map in_title (filter (\<lambda>i. in_type i = ty) xs) =
     map snd (filter (\<lambda>q. fst q = ty) (zip (map in_type xs) (map in_title xs)))"
  by (induction xs) simp_all

lemma list_ex_type: "list_ex (\<lambda>i. in_type i = ty) xs = (ty \<in> set (map in_type xs))"
  by (induction xs) auto

lemma ensurePositive_types:
  "map in_type (ensurePositive xs n) =
     (if POSITIVE \<in> set (map in_type xs) then map in_type xs else map in_type xs @ [POSITIVE])"
  unfolding ensurePositive_def list_ex_type by simp

lemma ensurePositive_titles:
  "map in_title (ensurePositive xs n) =
     (if POSITIVE \<in> set (map in_type xs) then map in_title xs
      else map in_title xs @ [''Consistent practice''])"
  unfolding ensurePositive_def list_ex_type by simp

lemma ensureConstructive_types:
  "map in_type (ensureConstructive xs r) =
     (if CONSTRUCTIVE \<in> set (map in_type xs) then map in_type xs
      else map in_type xs @ [CONSTRUCTIVE])"
  unfolding ensureConstructive_def list_ex_type by simp

lemma ensureConstructive_titles:
  "map in_title (ensureConstructive xs r) =
     (if CONSTRUCTIVE \<in> set (map in_type xs) then map in_title xs
      else map in_title xs @ [''Refine exits''])"
  unfolding ensureConstructive_def list_ex_type by simp

lemma insights_titles:
  "map in_title (filter (\<lambda>i. in_type i = POSITIVE)
      (ensureConstructive (ensurePositive (positiveReinforcement a w @ constructiveFeedback e n a) n) r)) =
     [if a \<ge> 70 then ''Strong plan adherence''
      else if w \<ge> 60 then ''Solid win rate'' else ''Consistent practice'']
   \<and> map in_title (filter (\<lambda>i. in_type i = CONSTRUCTIVE)
      (ensureConstructive (ensurePositive (positiveReinforcement a w @ constructiveFeedback e n a) n) r)) =
     [if real e / real n \<ge> 0.3 then ''Exiting too early''
      else if a < 60 then ''Improve plan adherence'' else ''Refine exits'']"
  unfolding filter_type_titles ensureConstructive_types ensureConstructive_titles
    ensurePositive_types ensurePositive_titles map_append
    positiveReinforcement_types positiveReinforcement_titles
    constructiveFeedback_types constructiveFeedback_titles
  by (cases "a \<ge> 70"; cases "w \<ge> 60"; cases "real e / real n \<ge> 0.3"; cases "a < 60"; simp)

text \<open>
  The main path: for a non-empty trade list and a plan, the insights hold exactly one
  POSITIVE insight, chosen by adherence at least 70, else win rate at least 60, else the
  generic one, and exactly one CONSTRUCTIVE insight, chosen by an early-exit ratio of at
  least 0.3, else adherence below 60, else the generic one. The no-data guard returns
  before the two pushes that ensure one insight of each type.
\<close>

lemma insights_main_path:
  "(trades \<noteq> [] \<longrightarrow>
     (let r = analyzePerformanceInsights trades (Some p) period now;
          a = st_planAdherence (pi_stats r);
          w = st_winRate (pi_stats r);
          e = real (insightEarlyExits trades) / real (length trades)
      in map in_title (filter (\<lambda>i. in_type i = POSITIVE) (pi_insights r)) =
           [if a \<ge> 70 then ''Strong plan adherence''
            else if w \<ge> 60 then ''Solid win rate'' else ''Consistent practice'']
         \<and> map in_title (filter (\<lambda>i. in_type i = CONSTRUCTIVE) (pi_insights r)) =
           [if e \<ge> 0.3 then ''Exiting too early''
            else if a < 60 then ''Improve plan adherence'' else ''Refine exits'']))
   \<and> (plan = None \<or> trades = [] \<longrightarrow>
        map in_type (pi_insights (analyzePerformanceInsights trades plan period now))
          = [CONSTRUCTIVE])"
proof -
  have fb: "plan = None \<or> trades = [] \<longrightarrow>
        map in_type (pi_insights (analyzePerformanceInsights trades plan period now))
          = [CONSTRUCTIVE]"
    unfolding analyzePerformanceInsights_def Let_def by (auto split: option.split)
  have main: "trades \<noteq> [] \<Longrightarrow>
     analyzePerformanceInsights trades (Some p) period now =
       \<lparr>pi_period = period,
        pi_insights =
          ensureConstructive
            (ensurePositive
               (positiveReinforcement (insightPlanAdherence trades p) (insightWinRate trades)
                @ constructiveFeedback (insightEarlyExits trades) (length trades)
                    (insightPlanAdherence trades p))
               (length trades))
            (insightAvgRR trades),
        pi_stats = pi_stats (analyzePerformanceInsights trades (Some p) period now),
        pi_recommendations =
          pi_recommendations (analyzePerformanceInsights trades (Some p) period now)\<rparr>
     \<and> st_planAdherence (pi_stats (analyzePerformanceInsights trades (Some p) period now))
         = insightPlanAdherence trades p
     \<and> st_winRate (pi_stats (analyzePerformanceInsights trades (Some p) period now))
         = insightWinRate trades"
    unfolding analyzePerformanceInsights_def Let_def by simp
  show ?thesis
  proof (cases "trades = []")
    case True
    with fb show ?thesis by simp
  next
    case False
    have ins: "pi_insights (analyzePerformanceInsights trades (Some p) period now) =
          ensureConstructive
            (ensurePositive
               (positiveReinforcement (insightPlanAdherence trades p) (insightWinRate trades)
                @ constructiveFeedback (insightEarlyExits trades) (length trades)
                    (insightPlanAdherence trades p))
               (length trades))
            (insightAvgRR trades)"
      using main [OF False] by (metis performance_insights.select_convs(2))
    show ?thesis
      unfolding Let_def ins
      using fb main [OF False] insights_titles by simp
  qed
qed

lemma asia_insight_stats:
  "insightPlanAdherence [asia_trade] london_plan = 0"
  "insightWinRate [asia_trade] = 100"
  "insightEarlyExits [asia_trade] = 0"
  by (simp_all add: insightPlanAdherence_def insightWinRate_def insightEarlyExits_def
        asia_trade_def london_plan_def or_default_def js_round_def Let_def)

lemma asia_stats:
  "st_planAdherence (pi_stats (analyzePerformanceInsights [asia_trade] (Some london_plan) ''MONTH'' 0)) = 0"
  "st_winRate (pi_stats (analyzePerformanceInsights [asia_trade] (Some london_plan) ''MONTH'' 0)) = 100"
  unfolding analyzePerformanceInsights_def Let_def by (simp_all add: asia_insight_stats)

lemma asia_insight_types:
  "map in_type (pi_insights (analyzePerformanceInsights [asia_trade] (Some london_plan) ''MONTH'' 0))
     = [POSITIVE, CONSTRUCTIVE]"
proof -
  have "pi_insights (analyzePerformanceInsights [asia_trade] (Some london_plan) ''MONTH'' 0) =
      ensureConstructive
        (ensurePositive
           (positiveReinforcement 0 100 @ constructiveFeedback 0 (length [asia_trade]) 0)
           (length [asia_trade]))
        (insightAvgRR [asia_trade])"
    unfolding analyzePerformanceInsights_def Let_def by (simp add: asia_insight_stats)
  then show ?thesis
    by (simp add: ensureConstructive_types ensurePositive_types positiveReinforcement_types
          constructiveFeedback_types)
qed

text \<open>
  Claim C5 at concrete inputs. For an empty trade list with a plan, and for a trade list
  without a plan, the generator returns a single CONSTRUCTIVE insight and no POSITIVE
  one, although for the same trade with the plan it returns one of each.
\<close>

theorem insights_fallback_example:
  "map in_type (pi_insights (analyzePerformanceInsights [] (Some london_plan) ''MONTH'' 0))
     = [CONSTRUCTIVE]
   \<and> map in_type (pi_insights (analyzePerformanceInsights [asia_trade] None ''MONTH'' 0))
     = [CONSTRUCTIVE]
   \<and> \<not> list_ex (\<lambda>i. in_type i = POSITIVE)
         (pi_insights (analyzePerformanceInsights [] (Some london_plan) ''MONTH'' 0))
   \<and> \<not> list_ex (\<lambda>i. in_type i = POSITIVE)
         (pi_insights (analyzePerformanceInsights [asia_trade] None ''MONTH'' 0))
   \<and> map in_type
         (pi_insights (analyzePerformanceInsights [asia_trade] (Some london_plan) ''MONTH'' 0))
     = [POSITIVE, CONSTRUCTIVE]"
  using asia_insight_types by (simp add: analyzePerformanceInsights_def)

section \<open>Properties of the breathwork trigger\<close>

lemma hour_count: "countImpulsiveTradesLastHour 7200000 hour_trades = 1"
  by (simp add: countImpulsiveTradesLastHour_def hour_trades_def sortByEntry_def
        impulsivePairs_def neighbours_def diffMinutes_def)

text \<open>
  Claim C6, as the code has it. With mental battery 35, emotional volatility 50 and
  exactly one impulsive trade in the trailing hour, breathwork is suggested whatever the
  session-start battery. With the session-start battery absent (the default 100) or above
  65, in particular 100 as the service passes it, the battery drop exceeds 30, so the
  low-battery and battery-drop triggers both fire and the urgency score is
  20*2 + 15 + 20 = 75, in the band high. With a session-start battery of at most 65 the
  low-battery trigger fires alone, with score 35 in the band low. So the low-battery
  trigger fires alone exactly when the session-start battery is at most 65.
\<close>

theorem breathwork_example:
  assumes "countImpulsiveTradesLastHour now todayTrades = 1"
  shows "bw_shouldSuggest (shouldSuggestBreathwork 35 50 todayTrades start now)
    \<and> (map tr_type (bw_triggers (shouldSuggestBreathwork 35 50 todayTrades None now))
           = [''low_battery'', ''battery_drop'']
         \<and> ur_score (bw_urgency (shouldSuggestBreathwork 35 50 todayTrades None now)) = 75
         \<and> ur_level (bw_urgency (shouldSuggestBreathwork 35 50 todayTrades None now)) = ''high'')
    \<and> (65 < s \<longrightarrow>
         map tr_type (bw_triggers (shouldSuggestBreathwork 35 50 todayTrades (Some s) now))
           = [''low_battery'', ''battery_drop'']
         \<and> ur_score (bw_urgency (shouldSuggestBreathwork 35 50 todayTrades (Some s) now)) = 75
         \<and> ur_level (bw_urgency (shouldSuggestBreathwork 35 50 todayTrades (Some s) now)) = ''high'')
    \<and> (s \<le> 65 \<longrightarrow>
         map tr_type (bw_triggers (shouldSuggestBreathwork 35 50 todayTrades (Some s) now))
           = [''low_battery'']
         \<and> ur_score (bw_urgency (shouldSuggestBreathwork 35 50 todayTrades (Some s) now)) = 35
         \<and> ur_level (bw_urgency (shouldSuggestBreathwork 35 50 todayTrades (Some s) now)) = ''low'')
    \<and> ((map tr_type (bw_triggers (shouldSuggestBreathwork 35 50 todayTrades (Some s) now))
           = [''low_battery'']) = (s \<le> 65))"
proof -
  have a: "bw_shouldSuggest (shouldSuggestBreathwork 35 50 todayTrades start now)"
    using assms
    by (simp add: shouldSuggestBreathwork_def calculateUrgency_def calculateBatteryDrop_def
          Let_def split: option.split)
  have b: "map tr_type (bw_triggers (shouldSuggestBreathwork 35 50 todayTrades None now))
           = [''low_battery'', ''battery_drop'']
         \<and> ur_score (bw_urgency (shouldSuggestBreathwork 35 50 todayTrades None now)) = 75
         \<and> ur_level (bw_urgency (shouldSuggestBreathwork 35 50 todayTrades None now)) = ''high''"
    using assms
    by (simp add: shouldSuggestBreathwork_def calculateUrgency_def calculateBatteryDrop_def
          Let_def)
  have c: "65 < s \<longrightarrow>
         map tr_type (bw_triggers (shouldSuggestBreathwork 35 50 todayTrades (Some s) now))
           = [''low_battery'', ''battery_drop'']
         \<and> ur_score (bw_urgency (shouldSuggestBreathwork 35 50 todayTrades (Some s) now)) = 75
         \<and> ur_level (bw_urgency (shouldSuggestBreathwork 35 50 todayTrades (Some s) now)) = ''high''"
    using assms
    by (auto simp: shouldSuggestBreathwork_def calculateUrgency_def calculateBatteryDrop_def
          Let_def max_def)
  have d: "s \<le> 65 \<longrightarrow>
         map tr_type (bw_triggers (shouldSuggestBreathwork 35 50 todayTrades (Some s) now))
           = [''low_battery'']
         \<and> ur_score (bw_urgency (shouldSuggestBreathwork 35 50 todayTrades (Some s) now)) = 35
         \<and> ur_level (bw_urgency (shouldSuggestBreathwork 35 50 todayTrades (Some s) now)) = ''low''"
    using assms
    by (auto simp: shouldSuggestBreathwork_def calculateUrgency_def calculateBatteryDrop_def
          Let_def max_def)
  have e: "(map tr_type (bw_triggers (shouldSuggestBreathwork 35 50 todayTrades (Some s) now))
           = [''low_battery'']) = (s \<le> 65)"
    using c d by (cases "s \<le> 65") auto
  show ?thesis
    using a b c d e by blast
qed

theorem breathwork_example_witness:
  "countImpulsiveTradesLastHour 7200000 hour_trades = 1
   \<and> (60::real) \<le> 65
   \<and> (65::real) < 100
   \<and> bw_shouldSuggest (shouldSuggestBreathwork 35 50 hour_trades (Some 100) 7200000)
   \<and> map tr_type (bw_triggers (shouldSuggestBreathwork 35 50 hour_trades (Some 100) 7200000))
        = [''low_battery'', ''battery_drop'']
   \<and> ur_score (bw_urgency (shouldSuggestBreathwork 35 50 hour_trades (Some 100) 7200000)) = 75
   \<and> map tr_type (bw_triggers (shouldSuggestBreathwork 35 50 hour_trades (Some 60) 7200000))
        = [''low_battery'']
   \<and> ur_score (bw_urgency (shouldSuggestBreathwork 35 50 hour_trades (Some 60) 7200000)) = 35
   \<and> ur_level (bw_urgency (shouldSuggestBreathwork 35 50 hour_trades (Some 60) 7200000))
        = ''low''"
  using breathwork_example [OF hour_count, of "Some 100" 100]
    breathwork_example [OF hour_count, of "Some 60" 60] hour_count
  by simp

text \<open>
  At the stated input the battery-drop trigger fires as well and the urgency is 75, high.
\<close>

theorem breathwork_counterexample:
  "countImpulsiveTradesLastHour 7200000 hour_trades = 1
   \<and> map tr_type (bw_triggers (shouldSuggestBreathwork 35 50 hour_trades (Some 100) 7200000))
        = [''low_battery'', ''battery_drop'']
   \<and> ur_score (bw_urgency (shouldSuggestBreathwork 35 50 hour_trades (Some 100) 7200000)) = 75
   \<and> ur_level (bw_urgency (shouldSuggestBreathwork 35 50 hour_trades (Some 100) 7200000)) = ''high''"
  by (simp add: hour_count shouldSuggestBreathwork_def calculateUrgency_def
        calculateBatteryDrop_def Let_def)

section \<open>Properties of the state history\<close>

lemma hist_sorted: "sortByEntry hist_trades = [hist_t1, hist_t2, hist_t3]"
  by (simp add: sortByEntry_def hist_trades_def hist_t1_def hist_t2_def hist_t3_def)

lemma analyze_fields:
  assumes "trades \<noteq> []"
  shows "sa_state (analyzePsychologicalState trades (Some p)) =
     sr_state (determineState (calculateBasicMetrics (analyzedTrades trades))
        (calculateDayMetrics (analyzedTrades trades) p) (riskMetricsOf trades p)
        (planRiskOf p) (length (analyzedTrades trades)))"
    and "sa_confidence (analyzePsychologicalState trades (Some p)) =
     calculateConfidence (calculateBasicMetrics (analyzedTrades trades))
       (calculatePlanAdherence (rm_riskBreaches (riskMetricsOf trades p))
          (nearTargetHits (calculateBasicMetrics (analyzedTrades trades)))
          (calculateDayMetrics (analyzedTrades trades) p) (length (analyzedTrades trades)))
       (planRiskOf p) (length (analyzedTrades trades))"
  unfolding analyze_nonempty [OF assms] Let_def by simp_all

lemmas metric_defs =
  calculateBasicMetrics_def mean_or_def computeMedian_def isEarlyExit_def
  calculateDayMetrics_def countDay_def markOutside_def dayKey_def
  riskMetricsOf_def calculateRiskSpike_def calculateRiskBreaches_def avgRiskOr_def planRiskOf_def
  or_default_def analyzedTrades_def

lemmas score_defs =
  determineState_state overextended_def aggressive_def hesitant_def
  calculatePlanAdherence_def calculateConfidence_def signalStrength_def js_round_def

lemma hist_w0:
  "sa_state (analyzePsychologicalState [hist_t1] (Some london_plan)) = HESITANT"
  "sa_confidence (analyzePsychologicalState [hist_t1] (Some london_plan)) = 40"
  by (simp_all del: not_None_eq add: analyze_fields metric_defs score_defs Let_def
        hist_t1_def london_plan_def)

lemma hist_w1:
  "sa_state (analyzePsychologicalState [hist_t1, hist_t2] (Some london_plan)) = AGGRESSIVE"
  "sa_confidence (analyzePsychologicalState [hist_t1, hist_t2] (Some london_plan)) = 40"
  by (simp_all del: not_None_eq add: analyze_fields metric_defs score_defs Let_def
        hist_t1_def hist_t2_def london_plan_def)

lemma hist_w2:
  "sa_state (analyzePsychologicalState [hist_t1, hist_t2, hist_t3] (Some london_plan))
     = OVEREXTENDED"
  "sa_confidence (analyzePsychologicalState [hist_t1, hist_t2, hist_t3] (Some london_plan))
     = 39"
  by (simp_all del: not_None_eq add: analyze_fields metric_defs score_defs Let_def
        hist_t1_def hist_t2_def hist_t3_def london_plan_def)

lemma history_nonempty:
  assumes "trades \<noteq> []"
  shows "fst (analyzeStateHistory trades (Some p) limit) = sortByEntry trades"
    and "sh_history (snd (analyzeStateHistory trades (Some p) limit)) =
      take limit (historyLoop (sortByEntry trades) p limit
                    [0 ..< length (sortByEntry trades)] [] None)"
    and "hs_volatility (sh_summary (snd (analyzeStateHistory trades (Some p) limit))) =
      volatilityOf (map hp_confidence
        (historyLoop (sortByEntry trades) p limit [0 ..< length (sortByEntry trades)] [] None))"
  using assms unfolding analyzeStateHistory_def Let_def by simp_all

lemma hist_loop:
  "map (\<lambda>h. (hp_state h, hp_confidence h))
     (historyLoop (sortByEntry hist_trades) london_plan 50
        [0 ..< length (sortByEntry hist_trades)] [] None)
   = [(HESITANT, 40), (AGGRESSIVE, 40), (OVEREXTENDED, 39)]"
proof -
  have u: "[0 ..< length [hist_t1, hist_t2, hist_t3]] = [0, 1, 2]"
    by (simp add: upt_rec)
  show ?thesis
    unfolding hist_sorted u
    by (simp add: recentWindow_def Let_def hist_w0 hist_w1 hist_w2)
qed

lemma js_round_sqrt_zero:
  assumes "0 \<le> v" "v < 1 / 4"
  shows "js_round (sqrt v / 100 * 100) = 0"
proof -
  have "sqrt v < 1 / 2"
    using assms by (intro real_less_lsqrt) (simp_all add: power2_eq_square)
  moreover have "0 \<le> sqrt v"
    using assms by simp
  ultimately show ?thesis
    unfolding js_round_def by (simp add: floor_eq_iff)
qed

lemma js_round_sqrt_one:
  assumes "1 / 4 \<le> v" "v < 9 / 4"
  shows "js_round (sqrt v / 100 * 100) = 1"
proof -
  have "sqrt v < 3 / 2"
    using assms by (intro real_less_lsqrt) (simp_all add: power2_eq_square)
  moreover have "1 / 2 \<le> sqrt v"
    using assms by (intro real_le_rsqrt) (simp add: power2_eq_square)
  ultimately show ?thesis
    unfolding js_round_def by (simp add: floor_eq_iff)
qed

lemma vol_code: "volatilityOf [40, 40, 39] = 1 / 100"
proof -
  have a: "averageConfidenceOf [40, 40, 39] = 40"
    unfolding averageConfidenceOf_def js_round_def by simp
  have v: "sum_list (map (\<lambda>conf. (real_of_int (conf - 40))\<^sup>2) [40, 40, 39]) / real (length [40, 40, 39::int]) = 1 / 3"
    by simp
  show ?thesis
    unfolding volatilityOf_def Let_def a
    using js_round_sqrt_one [of "1 / 3"] by (simp only: v) simp
qed

lemma vol_spec: "spec_volatility [40, 40, 39] = 0"
proof -
  have v: "(let mean = real_of_int (sum_list [40, 40, 39]) / real (length [40, 40, 39::int])
      in sum_list (map (\<lambda>x. (real_of_int x - mean)\<^sup>2) [40, 40, 39]) / real (length [40, 40, 39::int])) = 2 / 9"
    by (simp add: power2_eq_square)
  have "spec_stddev [40, 40, 39] = sqrt (2 / 9)"
    unfolding spec_stddev_def using v by (simp only: Let_def)
  then show ?thesis
    unfolding spec_volatility_def
    using js_round_sqrt_zero [of "2 / 9"] by simp
qed

text \<open>
  Claim C8 at a concrete input. For three trades whose emitted confidences are 40, 40 and
  39, the summary reports the volatility 0.01, while the standard deviation of the
  confidences divided by 100 and rounded to two decimals is 0: the variance is taken
  around the rounded average confidence 40 instead of the mean 119/3.
\<close>

theorem history_volatility_example:
  "map hp_confidence (sh_history (snd (analyzeStateHistory hist_trades (Some london_plan) 50)))
     = [40, 40, 39]
   \<and> hs_volatility (sh_summary (snd (analyzeStateHistory hist_trades (Some london_plan) 50)))
     = 1 / 100
   \<and> spec_volatility [40, 40, 39] = 0"
proof -
  let ?H = "historyLoop (sortByEntry hist_trades) london_plan 50
              [0 ..< length (sortByEntry hist_trades)] [] None"
  have ne: "hist_trades \<noteq> []"
    by (simp add: hist_trades_def)
  have c: "map hp_confidence ?H = [40, 40, 39]"
    using arg_cong [OF hist_loop, of "map snd"] by (simp add: comp_def)
  have "length (map hp_confidence ?H) = 3"
    unfolding c by simp
  then have t: "take 50 ?H = ?H"
    by simp
  show ?thesis
    unfolding history_nonempty [OF ne] t c
    using vol_code vol_spec by simp
qed

text \<open>
  Claim C9 at a concrete input. The trade list passed most recent first, as the history
  service fetches it, is left in ascending order of entry time by the call.
\<close>

theorem history_sorts_input:
  "fst (analyzeStateHistory hist_trades (Some london_plan) 50) = [hist_t1, hist_t2, hist_t3]
   \<and> fst (analyzeStateHistory hist_trades (Some london_plan) 50) \<noteq> hist_trades"
proof -
  have ne: "hist_trades \<noteq> []"
    by (simp add: hist_trades_def)
  have "hist_t1 \<noteq> hist_t3"
    by (simp add: hist_t1_def hist_t3_def)
  then show ?thesis
    unfolding history_nonempty [OF ne] hist_sorted by (simp add: hist_trades_def)
qed

section \<open>Ranges of the scores\<close>

lemma js_round_range: "0 \<le> x \<Longrightarrow> x \<le> 100 \<Longrightarrow> 0 \<le> js_round x \<and> js_round x \<le> 100"
  unfolding js_round_def by (simp add: floor_le_iff le_floor_iff)

lemma js_round_nonneg: "0 \<le> x \<Longrightarrow> 0 \<le> js_round x"
  unfolding js_round_def by (simp add: le_floor_iff)

lemma js_round_clamp: "0 \<le> js_round (max 0 (min 100 x)) \<and> js_round (max 0 (min 100 x)) \<le> 100"
  by (rule js_round_range) simp_all

lemma criterion_le: "fst (criterion name points passed) \<le> points"
  unfolding criterion_def by simp

lemma tradeScore_le: "ts_score (calculateTradeScore t plan prev) \<le> 100"
proof -
  have "ts_score (calculateTradeScore t plan prev) =
      fst (criterion ''allowedSession'' 20 (isInAllowedSession t (preferredOrEmpty plan)))
    + fst (criterion ''properSlTp'' 30 (hasProperSlTp t (targetRROr1 plan)))
    + fst (criterion ''correctPositionSize'' 25 (hasCorrectPositionSize t (planRiskOr1 plan)))
    + fst (criterion ''notes'' 10 (hasNotes t))
    + fst (criterion ''timing'' 15 (hasTimingDiscipline t prev))"
    unfolding calculateTradeScore_def Let_def
    by (simp only: trade_score.simps list.map sum_list.Cons sum_list.Nil add_0_right add.assoc)
  also have "\<dots> \<le> 20 + 30 + 25 + 10 + 15"
    by (intro add_mono criterion_le)
  finally show ?thesis by simp
qed

lemma sum_scores_le:
  "sum_list (map (\<lambda>(t, prev). ts_score (calculateTradeScore t plan prev)) qs) \<le> 100 * length qs"
  by (induction qs) (auto intro: add_mono tradeScore_le)

lemma withPrevious_length: "length (withPrevious ts) = length ts"
  unfolding withPrevious_def by simp

lemma sortByEntry_length: "length (sortByEntry ts) = length ts"
  unfolding sortByEntry_def by simp

lemma ratio_round_range:
  assumes "tot \<le> 100 * n" "0 < (n::nat)"
  shows "0 \<le> js_round (real tot / real n) \<and> js_round (real tot / real n) \<le> 100"
proof (rule js_round_range)
  show "0 \<le> real tot / real n" by simp
  have "real tot \<le> 100 * real n"
    using assms(1) by (metis of_nat_le_iff of_nat_mult of_nat_numeral)
  then show "real tot / real n \<le> 100"
    using assms(2) by (simp add: pos_divide_le_eq)
qed

lemma planControl_range:
  "0 \<le> pc_percentage (calculatePlanControl trades plan)
   \<and> pc_percentage (calculatePlanControl trades plan) \<le> 100"
proof (cases "trades = []")
  case True
  then show ?thesis by (simp add: calculatePlanControl_def)
next
  case False
  let ?s = "sortByEntry (take 5 trades)"
  have n: "0 < length ?s"
    using False by (cases trades) (simp_all add: sortByEntry_length)
  have m: "map (\<lambda>(i, s). ts_score s)
             (map (\<lambda>(t, prev). (tradeId t, calculateTradeScore t plan prev)) (withPrevious ?s))
           = map (\<lambda>(t, prev). ts_score (calculateTradeScore t plan prev)) (withPrevious ?s)"
    by (simp add: case_prod_unfold comp_def)
  have "sum_list (map (\<lambda>(t, prev). ts_score (calculateTradeScore t plan prev)) (withPrevious ?s))
          \<le> 100 * length ?s"
    using sum_scores_le [of plan "withPrevious ?s"] by (simp only: withPrevious_length)
  from ratio_round_range [OF this n] show ?thesis
    using False unfolding calculatePlanControl_def Let_def m by simp
qed

lemma battery_range:
  "0 \<le> mb_battery (calculateMentalBattery ts plan pcp)
   \<and> mb_battery (calculateMentalBattery ts plan pcp) \<le> 100"
proof (cases "length ts = 0")
  case True
  then show ?thesis
    unfolding calculateMentalBattery_def Let_def
    by (simp only: if_True mental_battery.select_convs) simp
next
  case False
  then show ?thesis
    unfolding calculateMentalBattery_def Let_def
    by (simp only: if_False mental_battery.select_convs js_round_clamp simp_thms)
qed

lemma windowScore_range:
  "0 \<le> ws_score (calculateWindowScore ts plan) \<and> ws_score (calculateWindowScore ts plan) \<le> 100"
  unfolding calculateWindowScore_def Let_def
  by (simp only: window_score.select_convs js_round_clamp simp_thms)

lemma heatmap_range:
  assumes "w \<in> set (hm_windows (calculateBehaviorHeatmap gh ts plan))" "hw_score w = Some s"
  shows "0 \<le> s \<and> s \<le> 100"
proof -
  from assms(1) obtain window where
    w: "w = (let windowTrades =
                     filter (\<lambda>t. case getTimeWindow gh t of
                                    None \<Rightarrow> False
                                  | Some tw \<Rightarrow> tw_id tw = tw_id window) ts
               in if length windowTrades = 0 then
                    \<lparr>hw_window = window, hw_score = None, hw_color = ''grey'',
                     hw_tradeCount = 0, hw_metrics = None\<rparr>
                  else
                    let r = calculateWindowScore windowTrades plan
                    in \<lparr>hw_window = window, hw_score = Some (ws_score r),
                        hw_color = getColorStatus (ws_score r),
                        hw_tradeCount = length windowTrades,
                        hw_metrics = Some (ws_metrics r)\<rparr>)"
    unfolding calculateBehaviorHeatmap_def by (simp only: heatmap.select_convs) auto
  let ?wt = "filter (\<lambda>t. case getTimeWindow gh t of
                                    None \<Rightarrow> False
                                  | Some tw \<Rightarrow> tw_id tw = tw_id window) ts"
  have "hw_score w = (if length ?wt = 0 then None
                       else Some (ws_score (calculateWindowScore ?wt plan)))"
    unfolding w Let_def by (simp only: if_distrib [of hw_score] heatmap_window.select_convs)
  with assms(2) have "s = ws_score (calculateWindowScore ?wt plan)"
    by (simp split: if_splits)
  then show ?thesis
    using windowScore_range by simp
qed

lemma countDay_keys:
  "distinct (map fst acc) \<Longrightarrow> distinct (map fst (countDay t acc))"
  "fst ` set (countDay t acc) = {dayKey t} \<union> fst ` set acc"
  unfolding countDay_def by (simp_all add: distinct_update dom_update)

lemma fold_countDay_keys:
  "distinct (map fst acc) \<Longrightarrow>
   distinct (map fst (fold countDay ts acc))
   \<and> fst ` set (fold countDay ts acc) = fst ` set acc \<union> dayKey ` set ts"
proof (induction ts arbitrary: acc)
  case Nil
  then show ?case by simp
next
  case (Cons t ts)
  from Cons.IH [OF countDay_keys(1) [OF Cons.prems, of t]] show ?case
    by (auto simp: countDay_keys(2))
qed

lemma markOutside_keys:
  "distinct (map fst acc) \<Longrightarrow> distinct (map fst (markOutside p t acc))"
  "fst ` set (markOutside p t acc) \<subseteq> {dayKey t} \<union> fst ` set acc"
  unfolding markOutside_def Let_def by (auto simp: distinct_update dom_update)

lemma fold_markOutside_keys:
  "distinct (map fst acc) \<Longrightarrow>
   distinct (map fst (fold (markOutside p) ts acc))
   \<and> fst ` set (fold (markOutside p) ts acc) \<subseteq> fst ` set acc \<union> dayKey ` set ts"
proof (induction ts arbitrary: acc)
  case Nil
  then show ?case by simp
next
  case (Cons t ts)
  have ih: "distinct (map fst (fold (markOutside p) ts (markOutside p t acc)))"
    "fst ` set (fold (markOutside p) ts (markOutside p t acc))
       \<subseteq> fst ` set (markOutside p t acc) \<union> dayKey ` set ts"
    using Cons.IH [OF markOutside_keys(1) [OF Cons.prems, of p t]] by simp_all
  have "fst ` set (fold (markOutside p) ts (markOutside p t acc))
       \<subseteq> fst ` set acc \<union> dayKey ` set (t # ts)"
    using ih(2) markOutside_keys(2) [of p t acc] by (simp only: list.set image_insert) blast
  with ih(1) show ?case by simp
qed

lemma distinct_keys_length: "distinct (map fst al) \<Longrightarrow> length al = card (fst ` set al)"
  using distinct_card [of "map fst al"] by simp

lemma dayMetrics_le:
  "exceededDays (calculateDayMetrics ts p) \<le> daysWithTrades (calculateDayMetrics ts p)"
  "outsideSessionDays (calculateDayMetrics ts p) \<le> daysWithTrades (calculateDayMetrics ts p)"
proof -
  let ?by = "fold countDay ts []"
  let ?out = "fold (markOutside p) ts []"
  have e: "length (filter (\<lambda>cnt. maxTradesPerDay p \<noteq> 0 \<and> cnt > maxTradesPerDay p)
             (map snd ?by)) \<le> length ?by"
    using length_filter_le [of _ "map snd ?by"] by simp
  have kb: "distinct (map fst ?by)" "fst ` set ?by = dayKey ` set ts"
    using fold_countDay_keys [of "[]" ts] by simp_all
  have ko: "distinct (map fst ?out)" "fst ` set ?out \<subseteq> dayKey ` set ts"
    using fold_markOutside_keys [of "[]" p ts] by simp_all
  have "card (fst ` set ?out) \<le> card (dayKey ` set ts)"
    using ko(2) by (intro card_mono) simp_all
  then have o: "length ?out \<le> length ?by"
    using distinct_keys_length [OF kb(1)] distinct_keys_length [OF ko(1)] kb(2) by simp
  show "exceededDays (calculateDayMetrics ts p) \<le> daysWithTrades (calculateDayMetrics ts p)"
    unfolding calculateDayMetrics_def Let_def using e by simp
  show "outsideSessionDays (calculateDayMetrics ts p) \<le> daysWithTrades (calculateDayMetrics ts p)"
    unfolding calculateDayMetrics_def Let_def using o by (simp only: day_metrics.select_convs) auto
qed

lemma ratio_unit: "a \<le> b \<Longrightarrow> 0 \<le> 1 - real a / real (max 1 b) \<and> 1 - real a / real (max 1 b) \<le> 1"
proof -
  assume "a \<le> b"
  then have "real a \<le> real (max 1 b)" by simp
  then have "real a / real (max 1 b) \<le> 1"
    by (simp add: divide_le_eq_1)
  moreover have "0 \<le> real a / real (max 1 b)" by simp
  ultimately show ?thesis by simp
qed

lemma planAdherence_range:
  assumes "rb \<le> n" "outsideSessionDays dm \<le> daysWithTrades dm"
    "exceededDays dm \<le> daysWithTrades dm"
  shows "0 \<le> calculatePlanAdherence rb near dm n \<and> calculatePlanAdherence rb near dm n \<le> 100"
proof -
  define r where "r = 1 - real rb / real (max 1 n)"
  define s where "s = 1 - real (outsideSessionDays dm) / real (max 1 (daysWithTrades dm))"
  define c where "c = 1 - real (exceededDays dm) / real (max 1 (daysWithTrades dm))"
  define g where "g = min 1 (real near / real (max 1 n))"
  have b: "0 \<le> r" "r \<le> 1" "0 \<le> s" "s \<le> 1" "0 \<le> c" "c \<le> 1" "0 \<le> g" "g \<le> 1"
    using ratio_unit [OF assms(1)] ratio_unit [OF assms(2)] ratio_unit [OF assms(3)]
    unfolding r_def s_def c_def g_def by simp_all
  have eq: "calculatePlanAdherence rb near dm n =
      js_round ((r * 0.4 + s * 0.25 + c * 0.25 + g * 0.1) * 100)"
    unfolding calculatePlanAdherence_def Let_def r_def s_def c_def g_def or_default_def
    by (simp add: add.assoc)
  show ?thesis
    unfolding eq using b by (intro js_round_range) simp_all
qed

lemma riskBreaches_le: "calculateRiskBreaches ts r \<le> length ts"
  unfolding calculateRiskBreaches_def by simp

lemma statePlanAdherence_range:
  "0 \<le> sa_planAdherence (analyzePsychologicalState trades plan)
   \<and> sa_planAdherence (analyzePsychologicalState trades plan) \<le> 100"
proof (cases "plan = None \<or> trades = []")
  case True
  then show ?thesis
    by (auto simp: analyzePsychologicalState_def split: option.split)
next
  case False
  then obtain p where p: "plan = Some p" and ne: "trades \<noteq> []" by auto
  have rb: "rm_riskBreaches (riskMetricsOf trades p) \<le> length (analyzedTrades trades)"
    unfolding riskMetricsOf_def Let_def using riskBreaches_le by simp
  show ?thesis
    unfolding p analyze_nonempty [OF ne] Let_def
    using planAdherence_range [OF rb dayMetrics_le(2) dayMetrics_le(1)] by simp
qed

lemma filter_ratio_unit:
  "0 \<le> real (length (filter P xs)) / real (length xs)
   \<and> real (length (filter P xs)) / real (length xs) \<le> 1"
proof -
  have "real (length (filter P xs)) \<le> real (length xs)"
    by simp
  then show ?thesis
    by (cases "xs = []") (simp_all add: divide_le_eq_1)
qed

lemma insightPlanAdherence_range:
  "0 \<le> insightPlanAdherence trades p \<and> insightPlanAdherence trades p \<le> 100"
proof -
  define a where "a = real (length (filter (\<lambda>t. riskPercentUsed t \<noteq> None
                    \<and> the (riskPercentUsed t) > or_default (riskPercentPerTrade p) 0 * 1.5) trades))
              / real (length trades)"
  define b where "b = real (length (filter (\<lambda>t. \<not> (tsession t \<in> set (preferredSessions p))) trades))
              / real (length trades)"
  have r: "0 \<le> a" "a \<le> 1" "0 \<le> b" "b \<le> 1"
    unfolding a_def b_def using filter_ratio_unit by blast+
  have eq: "insightPlanAdherence trades p = js_round ((1 - a + (1 - b)) / 2 * 100)"
    unfolding insightPlanAdherence_def Let_def a_def b_def by (rule refl)
  show ?thesis
    unfolding eq using r by (intro js_round_range) simp_all
qed

lemma insightAdherence_range:
  "0 \<le> st_planAdherence (pi_stats (analyzePerformanceInsights trades plan period now))
   \<and> st_planAdherence (pi_stats (analyzePerformanceInsights trades plan period now)) \<le> 100"
proof (cases "plan = None \<or> trades = []")
  case True
  then show ?thesis
    by (auto simp: analyzePerformanceInsights_def Let_def split: option.split)
next
  case False
  then obtain p where p: "plan = Some p" and ne: "trades \<noteq> []" by auto
  have "st_planAdherence (pi_stats (analyzePerformanceInsights trades (Some p) period now))
          = insightPlanAdherence trades p"
    using ne unfolding analyzePerformanceInsights_def Let_def by simp
  then show ?thesis
    unfolding p using insightPlanAdherence_range by simp
qed

lemma js_round_le: "x \<le> 100 \<Longrightarrow> js_round x \<le> 100"
  unfolding js_round_def by (simp add: floor_le_iff)

lemma planRiskOr1_pos:
  "(\<And>p. plan = Some p \<Longrightarrow> 0 \<le> riskPercentPerTrade p) \<Longrightarrow> 0 < planRiskOr1 plan"
  unfolding planRiskOr1_def or_default_def by (cases plan) (auto simp: less_le)

lemma risksUsed_nonneg:
  "(\<And>t r. t \<in> set ts \<Longrightarrow> riskPercentUsed t = Some r \<Longrightarrow> 0 \<le> r) \<Longrightarrow>
   0 \<le> sum_list (risksUsed ts)"
  unfolding risksUsed_def truthy_def
  by (intro sum_list_nonneg) (auto split: option.splits)

lemma aggressionBase_nonneg:
  assumes "\<And>t r. t \<in> set ts \<Longrightarrow> riskPercentUsed t = Some r \<Longrightarrow> 0 \<le> r" "0 < planRisk"
  shows "0 \<le> aggressionBase ts planRisk"
  unfolding aggressionBase_def using risksUsed_nonneg [OF assms(1)] assms(2)
  by (simp add: divide_nonneg_pos)

lemma discipline_range:
  "0 \<le> pcp \<Longrightarrow> 0 \<le> calculateDiscipline ts plan pcp \<and> calculateDiscipline ts plan pcp \<le> 100"
  unfolding calculateDiscipline_def Let_def by (simp add: js_round_nonneg)

lemma impulseControl_range:
  "0 \<le> calculateImpulseControl ts \<and> calculateImpulseControl ts \<le> 100"
  unfolding calculateImpulseControl_def Let_def by (simp add: js_round_le)

lemma aggression_le: "calculateAggression ts plan \<le> 100"
  unfolding calculateAggression_def Let_def by simp

lemma aggression_nonneg:
  assumes "\<And>t r. t \<in> set ts \<Longrightarrow> riskPercentUsed t = Some r \<Longrightarrow> 0 \<le> r"
    "\<And>p. plan = Some p \<Longrightarrow> 0 \<le> riskPercentPerTrade p"
  shows "0 \<le> calculateAggression ts plan"
proof -
  have "0 \<le> aggressionBase ts (planRiskOr1 plan)"
    using aggressionBase_nonneg [OF assms(1) planRiskOr1_pos [OF assms(2)]] by simp
  then show ?thesis
    unfolding calculateAggression_def Let_def by (simp add: js_round_nonneg)
qed

lemma hesitation_range:
  "0 \<le> calculateHesitation ts \<and> calculateHesitation ts \<le> 100"
  unfolding calculateHesitation_def Let_def by (simp add: js_round_nonneg)

lemma consistency_range:
  "0 \<le> calculateConsistency ts plan \<and> calculateConsistency ts plan \<le> 100"
  unfolding calculateConsistency_def Let_def by simp

lemma emotionalVolatility_range:
  "0 \<le> calculateEmotionalVolatility a h \<and> calculateEmotionalVolatility a h \<le> 100"
  unfolding calculateEmotionalVolatility_def Let_def by (simp add: js_round_nonneg)

lemma radar_traits_nonempty:
  "length trades \<noteq> 0 \<Longrightarrow>
   rd_traits (calculatePsychologicalRadar trades plan) =
     \<lparr>discipline =
        calculateDiscipline (take 5 trades) plan
          (real_of_int (pc_percentage (calculatePlanControl (take 5 trades) plan))),
      impulseControl = calculateImpulseControl (take 5 trades),
      aggression = calculateAggression (take 5 trades) plan,
      hesitation = calculateHesitation (take 5 trades),
      consistency = calculateConsistency (take 5 trades) plan,
      emotionalVolatility =
        calculateEmotionalVolatility (calculateAggression (take 5 trades) plan)
          (calculateHesitation (take 5 trades))\<rparr>"
  unfolding calculatePsychologicalRadar_def Let_def
  by (simp only: if_False radar.select_convs)

lemma radar_range:
  "in_range (discipline (rd_traits (calculatePsychologicalRadar trades plan)))
   \<and> in_range (impulseControl (rd_traits (calculatePsychologicalRadar trades plan)))
   \<and> aggression (rd_traits (calculatePsychologicalRadar trades plan)) \<le> 100
   \<and> in_range (hesitation (rd_traits (calculatePsychologicalRadar trades plan)))
   \<and> in_range (consistency (rd_traits (calculatePsychologicalRadar trades plan)))
   \<and> in_range (emotionalVolatility (rd_traits (calculatePsychologicalRadar trades plan)))"
proof (cases "length trades = 0")
  case True
  then show ?thesis
    unfolding calculatePsychologicalRadar_def in_range_def by simp
next
  case False
  have pc: "0 \<le> real_of_int (pc_percentage (calculatePlanControl (take 5 trades) plan))"
    using planControl_range by simp
  show ?thesis
    unfolding radar_traits_nonempty [OF False] in_range_def
    using discipline_range [OF pc] impulseControl_range aggression_le
      hesitation_range consistency_range emotionalVolatility_range
    by (simp only: radar_traits.select_convs simp_thms)
qed

lemma radar_aggression_nonneg:
  assumes "\<forall>t \<in> set trades. \<forall>r. riskPercentUsed t = Some r \<longrightarrow> 0 \<le> r"
    and "\<forall>p. plan = Some p \<longrightarrow> 0 \<le> riskPercentPerTrade p"
  shows "0 \<le> aggression (rd_traits (calculatePsychologicalRadar trades plan))"
proof (cases "length trades = 0")
  case True
  then show ?thesis
    unfolding calculatePsychologicalRadar_def by simp
next
  case False
  have r5: "\<And>t r. t \<in> set (take 5 trades) \<Longrightarrow> riskPercentUsed t = Some r \<Longrightarrow> 0 \<le> r"
    using assms(1) by (meson in_set_takeD)
  have pr: "\<And>p. plan = Some p \<Longrightarrow> 0 \<le> riskPercentPerTrade p"
    using assms(2) by blast
  have "0 \<le> calculateAggression (take 5 trades) plan"
    by (rule aggression_nonneg) (use r5 pr in blast)+
  then show ?thesis
    unfolding radar_traits_nonempty [OF False] by (simp only: radar_traits.select_convs)
qed

text \<open>
  Claim C7. For every trade list and plan these values lie in [0, 100]: the plan adherence
  of the state analysis and of the performance insights, the discipline, impulse control,
  hesitation, consistency and emotional volatility traits of the psychological radar, the
  mental battery level for any plan-control percentage passed in, the plan-control
  percentage, the behavior score of a time window, and the score of every heatmap window
  that has one. The aggression trait is at most 100, and at least 0 whenever the recorded
  risks and the plan's risk per trade are non-negative, as the data model requires.
\<close>

theorem scores_in_range:
  "in_range (sa_planAdherence (analyzePsychologicalState trades plan))
   \<and> in_range (st_planAdherence (pi_stats (analyzePerformanceInsights trades plan period now)))
   \<and> in_range (discipline (rd_traits (calculatePsychologicalRadar trades plan)))
   \<and> in_range (impulseControl (rd_traits (calculatePsychologicalRadar trades plan)))
   \<and> aggression (rd_traits (calculatePsychologicalRadar trades plan)) \<le> 100
   \<and> ((\<forall>t \<in> set trades. \<forall>r. riskPercentUsed t = Some r \<longrightarrow> 0 \<le> r)
        \<and> (\<forall>p. plan = Some p \<longrightarrow> 0 \<le> riskPercentPerTrade p)
        \<longrightarrow> in_range (aggression (rd_traits (calculatePsychologicalRadar trades plan))))
   \<and> in_range (hesitation (rd_traits (calculatePsychologicalRadar trades plan)))
   \<and> in_range (consistency (rd_traits (calculatePsychologicalRadar trades plan)))
   \<and> in_range (emotionalVolatility (rd_traits (calculatePsychologicalRadar trades plan)))
   \<and> in_range (mb_battery (calculateMentalBattery trades plan planControlPercent))
   \<and> in_range (pc_percentage (calculatePlanControl trades plan))
   \<and> in_range (ws_score (calculateWindowScore trades plan))
   \<and> (\<forall>w \<in> set (hm_windows (calculateBehaviorHeatmap getHours trades plan)).
         \<forall>s. hw_score w = Some s \<longrightarrow> in_range s)"
proof -
  have h: "\<forall>w \<in> set (hm_windows (calculateBehaviorHeatmap getHours trades plan)).
          \<forall>s. hw_score w = Some s \<longrightarrow> in_range s"
    unfolding in_range_def using heatmap_range by blast
  have g: "(\<forall>t \<in> set trades. \<forall>r. riskPercentUsed t = Some r \<longrightarrow> 0 \<le> r)
        \<and> (\<forall>p. plan = Some p \<longrightarrow> 0 \<le> riskPercentPerTrade p)
        \<longrightarrow> in_range (aggression (rd_traits (calculatePsychologicalRadar trades plan)))"
    unfolding in_range_def using radar_aggression_nonneg [of trades plan] radar_range [of trades plan]
    by blast
  show ?thesis
    using radar_range [of trades plan] h g statePlanAdherence_range [of trades plan]
      insightAdherence_range [of trades plan period now]
      battery_range [of trades plan planControlPercent] planControl_range [of trades plan]
      windowScore_range [of trades plan]
    unfolding in_range_def by blast
qed

lemma asia_window:
  "getTimeWindow utcHours asia_trade = Some \<lparr>tw_id = ''00-03'', tw_startHour = 0, tw_endHour = 3\<rparr>"
  by (simp add: getTimeWindow_def utcHours_def TIME_WINDOWS_def asia_trade_def)

lemma asia_tradeScore: "ts_score (calculateTradeScore asia_trade (Some london_plan) None) = 15"
  by (simp add: calculateTradeScore_def criterion_def isInAllowedSession_def hasProperSlTp_def
        hasCorrectPositionSize_def hasNotes_def hasTimingDiscipline_def planRiskOr1_def
        targetRROr1_def preferredOrEmpty_def or_default_def js_num_def truthy_def
        asia_trade_def london_plan_def)

lemma asia_windowScore: "ws_score (calculateWindowScore [asia_trade] (Some london_plan)) = 75"
proof -
  have pc: "calculateWindowPlanCompliance [asia_trade] (Some london_plan) = 15"
    by (simp add: calculateWindowPlanCompliance_def sortByEntry_def withPrevious_def
          asia_tradeScore js_round_def)
  have wl: "calculateWinLossExpectancy [asia_trade] = 100"
    by (simp add: calculateWinLossExpectancy_def asia_trade_def)
  have ip: "calculateImpulsivenessPenalty [asia_trade] = 0"
    by (simp add: calculateImpulsivenessPenalty_def)
  have hp: "calculateHesitationPenalty [asia_trade] = 0"
    by (simp add: calculateHesitationPenalty_def truthy_def asia_trade_def)
  have rd: "calculateRiskDeviationPenalty [asia_trade] (planRiskOr1 (Some london_plan)) = 0"
    by (simp add: calculateRiskDeviationPenalty_def risksUsed_def riskStdDev_def truthy_def
          planRiskOr1_def or_default_def js_round_def asia_trade_def london_plan_def)
  have vp: "calculateVolatilityPenalty [asia_trade] (planRiskOr1 (Some london_plan)) = 0"
    by (simp add: calculateVolatilityPenalty_def)
  have fp: "calculateFrequencyPenalty [asia_trade] = 0"
    by (simp add: calculateFrequencyPenalty_def)
  show ?thesis
    unfolding calculateWindowScore_def Let_def pc wl ip hp rd vp fp
    by (simp add: js_round_def)
qed

lemma asia_heatmap:
  "hw_score (hd (hm_windows (calculateBehaviorHeatmap utcHours [asia_trade] (Some london_plan))))
     = Some 75"
  unfolding calculateBehaviorHeatmap_def
  by (simp add: TIME_WINDOWS_def asia_window asia_windowScore Let_def)

theorem scores_in_range_witness:
  "riskPercentUsed asia_trade = Some 5 \<and> (0::real) \<le> 5
   \<and> 0 \<le> riskPercentPerTrade london_plan
   \<and> hd (hm_windows (calculateBehaviorHeatmap utcHours [asia_trade] (Some london_plan)))
       \<in> set (hm_windows (calculateBehaviorHeatmap utcHours [asia_trade] (Some london_plan)))
   \<and> hw_score (hd (hm_windows
         (calculateBehaviorHeatmap utcHours [asia_trade] (Some london_plan)))) = Some 75
   \<and> in_range 75
   \<and> in_range (aggression (rd_traits (calculatePsychologicalRadar [asia_trade] (Some london_plan))))"
proof -
  have a: "\<forall>t \<in> set [asia_trade]. \<forall>r. riskPercentUsed t = Some r \<longrightarrow> 0 \<le> r"
    by (simp add: asia_trade_def)
  have b: "\<forall>p. Some london_plan = Some p \<longrightarrow> 0 \<le> riskPercentPerTrade p"
    by (simp add: london_plan_def)
  have m: "hd (hm_windows (calculateBehaviorHeatmap utcHours [asia_trade] (Some london_plan)))
       \<in> set (hm_windows (calculateBehaviorHeatmap utcHours [asia_trade] (Some london_plan)))"
    unfolding calculateBehaviorHeatmap_def by (simp add: TIME_WINDOWS_def)
  have c: "riskPercentUsed asia_trade = Some 5" "0 \<le> riskPercentPerTrade london_plan"
    by (simp_all add: asia_trade_def london_plan_def)
  show ?thesis
    using scores_in_range [of "[asia_trade]" "Some london_plan" "''MONTH''" 0 0 utcHours]
      a b m asia_heatmap c
    by auto
qed

section \<open>Null exclusion in the aggregates\<close>


lemma present_map: "present f ts = map the (filter (\<lambda>v. v \<noteq> None) (map f ts))"
  unfolding present_def by (induction ts) simp_all

lemma mean_or_zero_nil: "mean_or 0 [] = 0"
  unfolding mean_or_def by simp

lemma present_nil_iff: "present f ts = [] \<longleftrightarrow> filter (\<lambda>t. f t \<noteq> None) ts = []"
  unfolding present_def by simp

lemma basic_avgRisk: "avgRiskUsed (calculateBasicMetrics ts) = mean_or 0 (present riskPercentUsed ts)"
  unfolding calculateBasicMetrics_def Let_def present_def
  by (cases ts) (simp_all add: mean_or_def del: not_None_eq)


lemma basic_median:
  "medianTargetPct (calculateBasicMetrics ts)
     = computeMedian (sort (present targetPercentAchieved ts))"
  unfolding calculateBasicMetrics_def Let_def present_map
  by (cases ts) (simp_all add: computeMedian_def del: not_None_eq)



















lemma all_null_defaults:
  "(\<forall>t \<in> set ts. riskPercentUsed t = None) \<Longrightarrow> avgRiskUsed (calculateBasicMetrics ts) = 0"
  "(\<forall>t \<in> set ts. targetPercentAchieved t = None) \<Longrightarrow> medianTargetPct (calculateBasicMetrics ts) = 0"
  unfolding basic_avgRisk basic_median present_def
  by (simp_all add: mean_or_def computeMedian_def filter_empty_conv [THEN iffD2])






















end
